theory Spec2Isabelle
  imports Main
begin

section \<open>The scheduled-post dispatcher of SocialGem\<close>

text \<open>
  A shallow embedding of \<^verbatim>\<open>supabase/functions/publish-scheduled-posts/index.ts\<close>: the
  handler given to \<^verbatim>\<open>Deno.serve\<close>, \<^verbatim>\<open>publishToSocialMedia\<close> and the four platform
  publishers. The database is the state; every request sent to it and every call of a
  publisher is also appended to a trace, so that what the handler did can be observed.

  Text is a list of bytes: the accented letter of the French messages is written as its
  two UTF-8 bytes. Instants (\<^verbatim>\<open>timestamptz\<close> columns, \<^verbatim>\<open>new Date()\<close>) are natural numbers.
  Response headers are not modelled. The two environment variables are taken to be set, as
  the non-null assertions of the source do.
\<close>

subsection \<open>Tables\<close>

text \<open>
  The columns the dispatcher reads or writes, from the schema migration. A column that is
  not declared \<^verbatim>\<open>NOT NULL\<close> and whose value reaches the handler is an option: among them
  \<^verbatim>\<open>hashtags\<close> and \<^verbatim>\<open>media_ids\<close>, which have a default but may hold null. An element of
  \<^verbatim>\<open>hashtags\<close> may be null as well, and \<^verbatim>\<open>join\<close> reads the elements, so an element is an
  option too; the elements of \<^verbatim>\<open>media_ids\<close> are passed on unread. The two nullable columns
  that only the store compares with a constant are not options, since a null equals no
  constant: a null \<^verbatim>\<open>is_active\<close> counts as false, a null \<^verbatim>\<open>status\<close> as a status other than
  \<^verbatim>\<open>scheduled\<close>.
\<close>

record post_row =
  post_id :: string
  post_user_id :: string
  post_title :: string
  post_media_ids :: "string list option"
  post_scheduled_for :: "nat option"
  post_status :: string

record content_row =
  content_id :: string
  content_post_id :: string
  content_platform :: string
  content_text :: string
  content_hashtags :: "string option list option"
  published_url :: "string option"
  published_at :: "nat option"
  error_message :: "string option"

record account =
  account_id :: string
  account_user_id :: string
  account_platform :: string
  access_token :: "string option"
  is_active :: bool

text \<open>
  What the selection query returns for one post: the selected columns, with the nested
  \<^verbatim>\<open>post_content (id, platform, content_text, hashtags)\<close>.
\<close>

record selected_content =
  sc_id :: string
  sc_platform :: string
  sc_content_text :: string
  sc_hashtags :: "string option list option"

record selected_post =
  sel_id :: string
  sel_user_id :: string
  sel_title :: string
  sel_media_ids :: "string list option"
  sel_scheduled_for :: "nat option"
  sel_post_content :: "selected_content list"

subsection \<open>Requests, events and the world\<close>

text \<open>
  The two payloads the handler sends to \<^verbatim>\<open>post_content\<close>:
  \<^verbatim>\<open>{ error_message: m }\<close> and
  \<^verbatim>\<open>{ published_url: u, published_at: t, error_message: null }\<close>.
\<close>

datatype content_update =
    SetErrorMessage string
  | SetPublished string nat

datatype request =
    SelectDuePosts nat
  | UpdatePostStatus string string
  | SelectActiveAccounts string
  | UpdatePostContent string content_update

datatype event =
    Request request
  | PublishCall string string "string option list option" "string list option" account
  | PlatformPublish string string "string list option" account

text \<open>
  \<open>faults\<close> says which requests the store answers with an error, and with which message;
  the answer depends on the request alone. The client is used without \<^verbatim>\<open>throwOnError\<close>:
  a request never throws, it resolves to \<^verbatim>\<open>{ data, error }\<close>. Every request advances
  the clock, so that \<^verbatim>\<open>new Date()\<close> read after a request is later than one read before.
\<close>

record world =
  posts :: "post_row list"
  post_content :: "content_row list"
  social_accounts :: "account list"
  clock :: nat
  faults :: "request \<Rightarrow> string option"
  trace :: "event list"

type_synonym 'a reply = "'a option \<times> string option"

definition sent :: "request \<Rightarrow> world \<Rightarrow> world" where
  "sent r w = w\<lparr>clock := Suc (clock w), trace := trace w @ [Request r]\<rparr>"

subsection \<open>The store\<close>

text \<open>
  \<^verbatim>\<open>.eq('status', 'scheduled').lte('scheduled_for', now)\<close>: a null \<^verbatim>\<open>scheduled_for\<close>
  satisfies no comparison.
\<close>

definition due :: "nat \<Rightarrow> post_row \<Rightarrow> bool" where
  "due now p \<longleftrightarrow>
     post_status p = ''scheduled'' \<and>
     (case post_scheduled_for p of None \<Rightarrow> False | Some t \<Rightarrow> t \<le> now)"

definition project_content :: "content_row \<Rightarrow> selected_content" where
  "project_content c =
     \<lparr>sc_id = content_id c, sc_platform = content_platform c,
      sc_content_text = content_text c, sc_hashtags = content_hashtags c\<rparr>"

definition project_post :: "content_row list \<Rightarrow> post_row \<Rightarrow> selected_post" where
  "project_post cs p =
     \<lparr>sel_id = post_id p, sel_user_id = post_user_id p, sel_title = post_title p,
      sel_media_ids = post_media_ids p, sel_scheduled_for = post_scheduled_for p,
      sel_post_content =
        map project_content (filter (\<lambda>c. content_post_id c = post_id p) cs)\<rparr>"

text \<open>
  \<^verbatim>\<open>.limit(10)\<close> with no \<^verbatim>\<open>.order\<close>: the first ten matching rows, in the order of the table.
\<close>

definition due_rows :: "nat \<Rightarrow> world \<Rightarrow> post_row list" where
  "due_rows now w = take 10 (filter (due now) (posts w))"

definition select_due_posts :: "nat \<Rightarrow> world \<Rightarrow> selected_post list reply \<times> world" where
  "select_due_posts now w =
     (case faults w (SelectDuePosts now) of
        Some e \<Rightarrow> ((None, Some e), sent (SelectDuePosts now) w)
      | None \<Rightarrow>
          ((Some (map (project_post (post_content w)) (due_rows now w)), None),
           sent (SelectDuePosts now) w))"

definition update_post_status :: "string \<Rightarrow> string \<Rightarrow> world \<Rightarrow> string option \<times> world" where
  "update_post_status pid st w =
     (case faults w (UpdatePostStatus pid st) of
        Some e \<Rightarrow> (Some e, sent (UpdatePostStatus pid st) w)
      | None \<Rightarrow>
          (None,
           (sent (UpdatePostStatus pid st) w)
             \<lparr>posts := map (\<lambda>p. if post_id p = pid then p\<lparr>post_status := st\<rparr> else p) (posts w)\<rparr>))"

definition select_active_accounts :: "string \<Rightarrow> world \<Rightarrow> account list reply \<times> world" where
  "select_active_accounts uid w =
     (case faults w (SelectActiveAccounts uid) of
        Some e \<Rightarrow> ((None, Some e), sent (SelectActiveAccounts uid) w)
      | None \<Rightarrow>
          ((Some (filter (\<lambda>a. account_user_id a = uid \<and> is_active a) (social_accounts w)), None),
           sent (SelectActiveAccounts uid) w))"

fun apply_content_update :: "content_update \<Rightarrow> content_row \<Rightarrow> content_row" where
  "apply_content_update (SetErrorMessage m) c = c\<lparr>error_message := Some m\<rparr>"
| "apply_content_update (SetPublished u t) c =
     c\<lparr>published_url := Some u, published_at := Some t, error_message := None\<rparr>"

definition update_post_content :: "string \<Rightarrow> content_update \<Rightarrow> world \<Rightarrow> string option \<times> world" where
  "update_post_content cid u w =
     (case faults w (UpdatePostContent cid u) of
        Some e \<Rightarrow> (Some e, sent (UpdatePostContent cid u) w)
      | None \<Rightarrow>
          (None,
           (sent (UpdatePostContent cid u) w)
             \<lparr>post_content :=
                map (\<lambda>c. if content_id c = cid then apply_content_update u c else c)
                  (post_content w)\<rparr>))"

subsection \<open>Messages\<close>

definition e_acute :: string where
  "e_acute = [CHR 0xC3, CHR 0xA9]"

definition e_grave :: string where
  "e_grave = [CHR 0xC3, CHR 0xA8]"

definition a_grave :: string where
  "a_grave = [CHR 0xC3, CHR 0xA0]"

definition not_connected :: string where
  "not_connected = ''Compte non connect'' @ e_acute"

definition oauth_instagram :: string where
  "oauth_instagram =
     ''Instagram API n'' @ e_acute @ ''cessite une configuration OAuth compl'' @ e_grave
       @ ''te avec un compte Business''"

definition oauth_facebook :: string where
  "oauth_facebook =
     ''Facebook API n'' @ e_acute @ ''cessite une configuration OAuth compl'' @ e_grave @ ''te''"

definition oauth_tiktok :: string where
  "oauth_tiktok =
     ''TikTok API n'' @ e_acute @ ''cessite une configuration OAuth compl'' @ e_grave @ ''te''"

definition oauth_pinterest :: string where
  "oauth_pinterest =
     ''Pinterest API n'' @ e_acute @ ''cessite une configuration OAuth compl'' @ e_grave @ ''te''"

definition unsupported :: "string \<Rightarrow> string" where
  "unsupported platform = ''Plateforme non support'' @ e_acute @ ''e: '' @ platform"

subsection \<open>Publishing\<close>

text \<open>
  A publisher returns the events it caused and its outcome: \<open>Inl\<close> the message of the
  error it throws, \<open>Inr\<close> the url of the object it returns.
\<close>

type_synonym outcome = "event list \<times> (string + string)"

type_synonym publish_op =
  "string \<Rightarrow> string \<Rightarrow> string option list option \<Rightarrow> string list option \<Rightarrow> account
     \<Rightarrow> outcome"

definition publishToInstagram :: "string \<Rightarrow> string list option \<Rightarrow> account \<Rightarrow> outcome" where
  "publishToInstagram content mediaIds acc =
     ([PlatformPublish ''instagram'' content mediaIds acc], Inl oauth_instagram)"

definition publishToFacebook :: "string \<Rightarrow> string list option \<Rightarrow> account \<Rightarrow> outcome" where
  "publishToFacebook content mediaIds acc =
     ([PlatformPublish ''facebook'' content mediaIds acc], Inl oauth_facebook)"

definition publishToTikTok :: "string \<Rightarrow> string list option \<Rightarrow> account \<Rightarrow> outcome" where
  "publishToTikTok content mediaIds acc =
     ([PlatformPublish ''tiktok'' content mediaIds acc], Inl oauth_tiktok)"

definition publishToPinterest :: "string \<Rightarrow> string list option \<Rightarrow> account \<Rightarrow> outcome" where
  "publishToPinterest content mediaIds acc =
     ([PlatformPublish ''pinterest'' content mediaIds acc], Inl oauth_pinterest)"

text \<open>
  \<^verbatim>\<open>hashtags.join(' ')\<close> on an array: a null element is joined as the empty string.
\<close>

fun element :: "string option \<Rightarrow> string" where
  "element None = []"
| "element (Some h) = h"

fun join_space :: "string option list \<Rightarrow> string" where
  "join_space [] = []"
| "join_space [h] = element h"
| "join_space (h # hs) = element h @ '' '' @ join_space hs"

text \<open>
  On null, \<^verbatim>\<open>hashtags.join\<close> throws a \<^verbatim>\<open>TypeError\<close>; this is the message the runtime
  gives it.
\<close>

definition null_join_error :: string where
  "null_join_error =
     ''Cannot read properties of null (reading '' @ [CHR 0x27] @ ''join'' @ [CHR 0x27] @ '')''"

definition fullContent :: "string \<Rightarrow> string option list \<Rightarrow> string" where
  "fullContent content tags = content @ [CHR 0x0A, CHR 0x0A] @ join_space tags"

text \<open>
  \<^verbatim>\<open>fullContent\<close> is computed first, before the \<^verbatim>\<open>switch\<close>: on null hashtags the
  function throws there, whatever the platform, and calls no publisher.
\<close>

definition publishToSocialMedia :: publish_op where
  "publishToSocialMedia platform content hashtags mediaIds acc =
     (case hashtags of
        None \<Rightarrow> ([], Inl null_join_error)
      | Some tags \<Rightarrow>
          (if platform = ''instagram'' then publishToInstagram (fullContent content tags) mediaIds acc
           else if platform = ''facebook'' then publishToFacebook (fullContent content tags) mediaIds acc
           else if platform = ''tiktok'' then publishToTikTok (fullContent content tags) mediaIds acc
           else if platform = ''pinterest'' then publishToPinterest (fullContent content tags) mediaIds acc
           else ([], Inl (unsupported platform))))"

subsection \<open>The handler\<close>

text \<open>
  The handler is written over the publish operation it calls; the source's handler is
  the instance at \<open>publishToSocialMedia\<close>, \<open>handler\<close> below.
\<close>

text \<open>\<^verbatim>\<open>socialAccounts?.find(acc => acc.platform === content.platform)\<close>\<close>

definition find_account :: "account list option \<Rightarrow> string \<Rightarrow> account option" where
  "find_account socialAccounts platform =
     (case socialAccounts of
        None \<Rightarrow> None
      | Some accs \<Rightarrow> find (\<lambda>acc. account_platform acc = platform) accs)"

text \<open>
  The body of the loop over \<^verbatim>\<open>post.post_content\<close>, on the world and the two counters.
  \<open>PublishCall\<close> records the call of the publish operation with its five arguments.
\<close>

definition process_content ::
  "publish_op \<Rightarrow> selected_post \<Rightarrow> account list option \<Rightarrow> selected_content
     \<Rightarrow> world \<times> nat \<times> nat \<Rightarrow> world \<times> nat \<times> nat" where
  "process_content publish post socialAccounts content st =
     (case st of (w, successCount, failureCount) \<Rightarrow>
        (case find_account socialAccounts (sc_platform content) of
           None \<Rightarrow>
             (snd (update_post_content (sc_id content) (SetErrorMessage not_connected) w),
              successCount, failureCount + 1)
         | Some acc \<Rightarrow>
             (case publish (sc_platform content) (sc_content_text content) (sc_hashtags content)
                     (sel_media_ids post) acc of
                (evs, res) \<Rightarrow>
                  (let w1 = w\<lparr>trace := trace w
                              @ PublishCall (sc_platform content) (sc_content_text content)
                                  (sc_hashtags content) (sel_media_ids post) acc # evs\<rparr>
                   in case res of
                        Inr url \<Rightarrow>
                          (snd (update_post_content (sc_id content)
                                  (SetPublished url (clock w1)) w1),
                           successCount + 1, failureCount)
                      | Inl msg \<Rightarrow>
                          (snd (update_post_content (sc_id content) (SetErrorMessage msg) w1),
                           successCount, failureCount + 1)))))"

fun process_contents ::
  "publish_op \<Rightarrow> selected_post \<Rightarrow> account list option \<Rightarrow> selected_content list
     \<Rightarrow> world \<times> nat \<times> nat \<Rightarrow> world \<times> nat \<times> nat" where
  "process_contents publish post socialAccounts [] st = st"
| "process_contents publish post socialAccounts (content # rest) st =
     process_contents publish post socialAccounts rest
       (process_content publish post socialAccounts content st)"

text \<open>
  The rows that take the branch of \<^verbatim>\<open>successCount++\<close>: an account matches the platform
  and the publish operation returns for the row. It names them in the statements below.
\<close>

definition row_published ::
  "publish_op \<Rightarrow> selected_post \<Rightarrow> account list option \<Rightarrow> selected_content \<Rightarrow> bool" where
  "row_published publish post socialAccounts content =
     (case find_account socialAccounts (sc_platform content) of
        None \<Rightarrow> False
      | Some acc \<Rightarrow>
          (case snd (publish (sc_platform content) (sc_content_text content) (sc_hashtags content)
                       (sel_media_ids post) acc) of
             Inl msg \<Rightarrow> False
           | Inr url \<Rightarrow> True))"

definition finalStatus :: "nat \<Rightarrow> nat \<Rightarrow> string" where
  "finalStatus successCount failureCount =
     (if failureCount = 0 then ''published''
      else (if successCount > 0 then ''published'' else ''failed''))"

text \<open>An element of \<^verbatim>\<open>results\<close>: the counts, or the message of the error caught.\<close>

datatype summary =
    Counts string string nat nat
  | PostError string string string

text \<open>
  The body of the loop over \<^verbatim>\<open>postsToPublish\<close>. Only \<^verbatim>\<open>updateError\<close> is looked at and
  thrown; of the accounts query only \<^verbatim>\<open>data\<close> is read, and the replies to the other
  updates are dropped.
\<close>

definition process_post :: "publish_op \<Rightarrow> selected_post \<Rightarrow> world \<Rightarrow> summary \<times> world" where
  "process_post publish post w =
     (case update_post_status (sel_id post) ''publishing'' w of
        (Some updateError, w1) \<Rightarrow>
          (PostError (sel_id post) (sel_title post) updateError,
           snd (update_post_status (sel_id post) ''failed'' w1))
      | (None, w1) \<Rightarrow>
          (case select_active_accounts (sel_user_id post) w1 of
             ((socialAccounts, _), w2) \<Rightarrow>
               (case process_contents publish post socialAccounts (sel_post_content post) (w2, 0, 0) of
                  (w3, successCount, failureCount) \<Rightarrow>
                    (Counts (sel_id post) (sel_title post) successCount failureCount,
                     snd (update_post_status (sel_id post)
                            (finalStatus successCount failureCount) w3)))))"

fun process_posts :: "publish_op \<Rightarrow> selected_post list \<Rightarrow> world \<Rightarrow> summary list \<times> world" where
  "process_posts publish [] w = ([], w)"
| "process_posts publish (post # rest) w =
     (case process_post publish post w of
        (entry, w1) \<Rightarrow>
          (case process_posts publish rest w1 of
             (results, w2) \<Rightarrow> (entry # results, w2)))"

datatype body =
    NoBody
  | NothingToPublish string nat
  | Finished string nat "summary list"
  | ErrorBody string

record response =
  http_status :: nat
  response_body :: body

text \<open>
  The \<^verbatim>\<open>try\<close> block of the handler, with its \<^verbatim>\<open>catch\<close>: the dispatcher itself.
  \<^verbatim>\<open>now\<close> is the clock when it starts.
\<close>

definition dispatch :: "publish_op \<Rightarrow> world \<Rightarrow> response \<times> world" where
  "dispatch publish w =
     (case select_due_posts (clock w) w of
        ((postsToPublish, Some fetchError), w1) \<Rightarrow>
          (\<lparr>http_status = 500,
            response_body =
              ErrorBody (if fetchError = [] then ''Erreur serveur'' else fetchError)\<rparr>, w1)
      | ((None, None), w1) \<Rightarrow>
          (\<lparr>http_status = 200,
            response_body = NothingToPublish (''Aucun post '' @ a_grave @ '' publier'') 0\<rparr>, w1)
      | ((Some [], None), w1) \<Rightarrow>
          (\<lparr>http_status = 200,
            response_body = NothingToPublish (''Aucun post '' @ a_grave @ '' publier'') 0\<rparr>, w1)
      | ((Some ps, None), w1) \<Rightarrow>
          (case process_posts publish ps w1 of
             (results, w2) \<Rightarrow>
               (\<lparr>http_status = 200,
                 response_body =
                   Finished (''Publication termin'' @ e_acute @ ''e'') (length ps) results\<rparr>,
                w2)))"

text \<open>The handler: the answer to a preflight request, or the dispatcher.\<close>

definition handler_with :: "publish_op \<Rightarrow> string \<Rightarrow> world \<Rightarrow> response \<times> world" where
  "handler_with publish meth w =
     (if meth = ''OPTIONS'' then (\<lparr>http_status = 200, response_body = NoBody\<rparr>, w)
      else dispatch publish w)"

definition handler :: "string \<Rightarrow> world \<Rightarrow> response \<times> world" where
  "handler = handler_with publishToSocialMedia"

text \<open>The \<^verbatim>\<open>processed\<close> field of a response body, when it has one.\<close>

fun processed :: "body \<Rightarrow> nat option" where
  "processed (NothingToPublish m n) = Some n"
| "processed (Finished m n rs) = Some n"
| "processed b = None"

text \<open>The \<^verbatim>\<open>post_id\<close> field of an element of \<^verbatim>\<open>results\<close>.\<close>

fun summary_post_id :: "summary \<Rightarrow> string" where
  "summary_post_id (Counts pid title s f) = pid"
| "summary_post_id (PostError pid title msg) = pid"

text \<open>A request that writes, as opposed to the two queries.\<close>

fun is_write :: "event \<Rightarrow> bool" where
  "is_write (Request (UpdatePostStatus pid st)) = True"
| "is_write (Request (UpdatePostContent cid u)) = True"
| "is_write e = False"

subsection \<open>Example data\<close>

text \<open>
  A publish operation that succeeds on facebook and is refused elsewhere, a user with
  two accounts, and a world holding one due post of that user; they are the concrete
  inputs at which the theorems below are instantiated.
\<close>

definition publish_stub :: publish_op where
  "publish_stub platform content hashtags mediaIds acc =
     ([], if platform = ''facebook'' then Inr (''https://facebook.example/'' @ account_id acc)
          else Inl ''refused'')"

definition instagram_account :: account where
  "instagram_account =
     \<lparr>account_id = ''a1'', account_user_id = ''u1'', account_platform = ''instagram'',
      access_token = Some ''t1'', is_active = True\<rparr>"

definition facebook_account :: account where
  "facebook_account =
     \<lparr>account_id = ''a2'', account_user_id = ''u1'', account_platform = ''facebook'',
      access_token = Some ''t2'', is_active = True\<rparr>"

definition instagram_content :: selected_content where
  "instagram_content =
     \<lparr>sc_id = ''c1'', sc_platform = ''instagram'', sc_content_text = ''Hello'',
      sc_hashtags = Some [Some ''#a'', Some ''#b'']\<rparr>"

definition facebook_content :: selected_content where
  "facebook_content =
     \<lparr>sc_id = ''c2'', sc_platform = ''facebook'', sc_content_text = ''Hi'',
      sc_hashtags = Some []\<rparr>"

definition twitter_account :: account where
  "twitter_account =
     \<lparr>account_id = ''a3'', account_user_id = ''u1'', account_platform = ''twitter'',
      access_token = Some ''t3'', is_active = True\<rparr>"

definition twitter_content :: selected_content where
  "twitter_content =
     \<lparr>sc_id = ''c3'', sc_platform = ''twitter'', sc_content_text = ''Hey'',
      sc_hashtags = Some [Some ''#x'']\<rparr>"

definition content_row_of :: "string \<Rightarrow> selected_content \<Rightarrow> content_row" where
  "content_row_of pid c =
     \<lparr>content_id = sc_id c, content_post_id = pid, content_platform = sc_platform c,
      content_text = sc_content_text c, content_hashtags = sc_hashtags c,
      published_url = None, published_at = None, error_message = None\<rparr>"

definition example_post :: "selected_content list \<Rightarrow> selected_post" where
  "example_post cs =
     \<lparr>sel_id = ''p1'', sel_user_id = ''u1'', sel_title = ''Launch'', sel_media_ids = Some [''m1''],
      sel_scheduled_for = Some 5, sel_post_content = cs\<rparr>"

definition example_world ::
  "selected_content list \<Rightarrow> account list \<Rightarrow> (request \<Rightarrow> string option) \<Rightarrow> world" where
  "example_world cs accs fs =
     \<lparr>posts = [\<lparr>post_id = ''p1'', post_user_id = ''u1'', post_title = ''Launch'',
                post_media_ids = Some [''m1''], post_scheduled_for = Some 5,
                post_status = ''scheduled''\<rparr>],
      post_content = map (content_row_of ''p1'') cs,
      social_accounts = accs, clock = 10, faults = fs, trace = []\<rparr>"

text \<open>A second due post of the same user, with no content row, and the world that holds both.\<close>

definition second_row :: post_row where
  "second_row =
     \<lparr>post_id = ''p2'', post_user_id = ''u1'', post_title = ''Sequel'',
      post_media_ids = Some [],
      post_scheduled_for = Some 7, post_status = ''scheduled''\<rparr>"

definition two_post_world ::
  "selected_content list \<Rightarrow> account list \<Rightarrow> (request \<Rightarrow> string option) \<Rightarrow> world" where
  "two_post_world cs accs fs =
     (example_world cs accs fs)\<lparr>posts := posts (example_world cs accs fs) @ [second_row]\<rparr>"

text \<open>The store refusing one request, with a message, and accepting every other.\<close>

definition refusing :: "request \<Rightarrow> string \<Rightarrow> request \<Rightarrow> string option" where
  "refusing r0 e r = (if r = r0 then Some e else None)"

section \<open>Properties\<close>

subsection \<open>The store and the loops\<close>

lemmas example_defs = publish_stub_def instagram_account_def facebook_account_def
  twitter_account_def instagram_content_def facebook_content_def twitter_content_def
  content_row_of_def example_post_def example_world_def second_row_def two_post_world_def
  refusing_def

lemmas run_defs = process_post_def update_post_status_def sent_def select_active_accounts_def
  process_content_def find_account_def update_post_content_def finalStatus_def

lemmas select_defs = handler_def handler_with_def dispatch_def select_due_posts_def due_rows_def
  due_def project_post_def project_content_def

lemma sent_fields [simp]:
  "posts (sent r w) = posts w"
  "post_content (sent r w) = post_content w"
  "social_accounts (sent r w) = social_accounts w"
  "faults (sent r w) = faults w"
  "clock (sent r w) = Suc (clock w)"
  "trace (sent r w) = trace w @ [Request r]"
  by (simp_all add: sent_def)

lemma update_post_status_frame [simp]:
  "faults (snd (update_post_status pid st w)) = faults w"
  "post_content (snd (update_post_status pid st w)) = post_content w"
  "social_accounts (snd (update_post_status pid st w)) = social_accounts w"
  "clock (snd (update_post_status pid st w)) = Suc (clock w)"
  "trace (snd (update_post_status pid st w)) = trace w @ [Request (UpdatePostStatus pid st)]"
  by (simp_all add: update_post_status_def split: option.splits)

lemma update_post_status_reply [simp]:
  "fst (update_post_status pid st w) = faults w (UpdatePostStatus pid st)"
  by (simp add: update_post_status_def split: option.splits)

lemma update_post_status_posts:
  "posts (snd (update_post_status pid st w)) =
     (if faults w (UpdatePostStatus pid st) = None
      then map (\<lambda>p. if post_id p = pid then p\<lparr>post_status := st\<rparr> else p) (posts w)
      else posts w)"
  by (simp add: update_post_status_def split: option.splits)

lemma update_post_content_frame [simp]:
  "faults (snd (update_post_content cid u w)) = faults w"
  "posts (snd (update_post_content cid u w)) = posts w"
  "social_accounts (snd (update_post_content cid u w)) = social_accounts w"
  "clock (snd (update_post_content cid u w)) = Suc (clock w)"
  "trace (snd (update_post_content cid u w)) = trace w @ [Request (UpdatePostContent cid u)]"
  by (simp_all add: update_post_content_def split: option.splits)

lemma update_post_content_rows:
  "post_content (snd (update_post_content cid u w)) =
     (if faults w (UpdatePostContent cid u) = None
      then map (\<lambda>c. if content_id c = cid then apply_content_update u c else c) (post_content w)
      else post_content w)"
  by (simp add: update_post_content_def split: option.splits)

lemma select_active_accounts_frame [simp]:
  "faults (snd (select_active_accounts uid w)) = faults w"
  "posts (snd (select_active_accounts uid w)) = posts w"
  "post_content (snd (select_active_accounts uid w)) = post_content w"
  "social_accounts (snd (select_active_accounts uid w)) = social_accounts w"
  "clock (snd (select_active_accounts uid w)) = Suc (clock w)"
  "trace (snd (select_active_accounts uid w)) = trace w @ [Request (SelectActiveAccounts uid)]"
  by (simp_all add: select_active_accounts_def split: option.splits)

lemma select_due_posts_frame [simp]:
  "faults (snd (select_due_posts now w)) = faults w"
  "posts (snd (select_due_posts now w)) = posts w"
  "post_content (snd (select_due_posts now w)) = post_content w"
  "social_accounts (snd (select_due_posts now w)) = social_accounts w"
  "clock (snd (select_due_posts now w)) = Suc (clock w)"
  "trace (snd (select_due_posts now w)) = trace w @ [Request (SelectDuePosts now)]"
  by (simp_all add: select_due_posts_def split: option.splits)

lemma process_content_frame [simp]:
  "faults (fst (process_content publish post accs c st)) = faults (fst st)"
  "posts (fst (process_content publish post accs c st)) = posts (fst st)"
  "social_accounts (fst (process_content publish post accs c st)) = social_accounts (fst st)"
  by (simp_all add: process_content_def Let_def split: prod.splits option.splits sum.splits)

lemma process_contents_frame [simp]:
  "faults (fst (process_contents publish post accs cs st)) = faults (fst st)"
  "posts (fst (process_contents publish post accs cs st)) = posts (fst st)"
  "social_accounts (fst (process_contents publish post accs cs st)) = social_accounts (fst st)"
  by (induction cs arbitrary: st; simp)+

lemma finalStatus_published: "finalStatus s f = ''published'' \<longleftrightarrow> f = 0 \<or> 0 < s"
  by (simp add: finalStatus_def)

lemma finalStatus_failed: "finalStatus s f = ''failed'' \<longleftrightarrow> s = 0 \<and> 0 < f"
  by (simp add: finalStatus_def)

lemma process_post_normal:
  assumes "faults w (UpdatePostStatus (sel_id post) ''publishing'') = None"
  shows "process_post publish post w =
     (let w1 = snd (update_post_status (sel_id post) ''publishing'' w);
          socialAccounts = fst (fst (select_active_accounts (sel_user_id post) w1));
          w2 = snd (select_active_accounts (sel_user_id post) w1);
          r = process_contents publish post socialAccounts (sel_post_content post) (w2, 0, 0)
      in (Counts (sel_id post) (sel_title post) (fst (snd r)) (snd (snd r)),
          snd (update_post_status (sel_id post) (finalStatus (fst (snd r)) (snd (snd r))) (fst r))))"
proof -
  obtain e w1 where u: "update_post_status (sel_id post) ''publishing'' w = (e, w1)"
    by (cases "update_post_status (sel_id post) ''publishing'' w")
  have "e = None"
    using update_post_status_reply[of "sel_id post" "''publishing''" w] assms by (simp add: u)
  then show ?thesis
    by (simp add: process_post_def u Let_def split: prod.splits)
qed

lemma status_after_update:
  assumes "faults w (UpdatePostStatus pid st) = None"
    and "p \<in> set (posts (snd (update_post_status pid st w)))" and "post_id p = pid"
  shows "post_status p = st"
proof -
  from assms(1,2) obtain q where "q \<in> set (posts w)"
    and p: "p = (if post_id q = pid then q\<lparr>post_status := st\<rparr> else q)"
    unfolding update_post_status_posts by auto
  then show ?thesis using assms(3) by (cases "post_id q = pid") simp_all
qed

subsection \<open>Content rows\<close>

lemma find_account_none:
  assumes "filter (\<lambda>a. account_user_id a = uid \<and> is_active a \<and> account_platform a = platform)
             (social_accounts w0) = []"
  shows "find_account (fst (fst (select_active_accounts uid w0))) platform = None"
proof (cases "faults w0 (SelectActiveAccounts uid)")
  case None
  have "\<not> (account_user_id a = uid \<and> is_active a \<and> account_platform a = platform)"
    if "a \<in> set (social_accounts w0)" for a
    using assms that by (simp add: filter_empty_conv)
  then show ?thesis
    using None by (auto simp: select_active_accounts_def find_account_def find_None_iff)
next
  case (Some e)
  then show ?thesis by (simp add: select_active_accounts_def find_account_def)
qed

lemma content_after_update:
  assumes "faults w (UpdatePostContent cid u) = None"
    and "c \<in> set (post_content (snd (update_post_content cid u w)))" and "content_id c = cid"
  shows "\<exists>c0 \<in> set (post_content w). c = apply_content_update u c0"
proof -
  from assms(1,2) obtain q where q: "q \<in> set (post_content w)"
    and c: "c = (if content_id q = cid then apply_content_update u q else q)"
    unfolding update_post_content_rows by auto
  show ?thesis
  proof (cases "content_id q = cid")
    case True
    then show ?thesis using q c by auto
  next
    case False
    then show ?thesis using c assms(3) by simp
  qed
qed

lemma error_after_update:
  assumes "faults w (UpdatePostContent cid (SetErrorMessage m)) = None"
    and "c \<in> set (post_content (snd (update_post_content cid (SetErrorMessage m) w)))"
    and "content_id c = cid"
  shows "error_message c = Some m"
  using content_after_update[OF assms] by auto

lemma process_content_not_found:
  assumes "find_account socialAccounts (sc_platform content) = None"
  shows "process_content publish post socialAccounts content (w, s, f) =
           (snd (update_post_content (sc_id content) (SetErrorMessage not_connected) w), s, Suc f)"
  using assms by (simp add: process_content_def)

lemma process_content_found:
  assumes "find_account socialAccounts (sc_platform content) = Some acc"
    and "publish (sc_platform content) (sc_content_text content) (sc_hashtags content)
           (sel_media_ids post) acc = (evs, res)"
  shows "process_content publish post socialAccounts content (w, s, f) =
           (case res of
              Inr url \<Rightarrow>
                (snd (update_post_content (sc_id content) (SetPublished url (clock w))
                   (w\<lparr>trace := trace w @ PublishCall (sc_platform content) (sc_content_text content)
                        (sc_hashtags content) (sel_media_ids post) acc # evs\<rparr>)), Suc s, f)
            | Inl msg \<Rightarrow>
                (snd (update_post_content (sc_id content) (SetErrorMessage msg)
                   (w\<lparr>trace := trace w @ PublishCall (sc_platform content) (sc_content_text content)
                        (sc_hashtags content) (sel_media_ids post) acc # evs\<rparr>)), s, Suc f))"
  using assms by (simp add: process_content_def Let_def split: sum.splits)

text \<open>
  C2. Take a content row whose platform is the platform of no active account of the
  post's owner, whatever the accounts query answered. Whatever the publish operation is,
  it is not called: the trace gains one event only, the request that sets the row's
  \<^verbatim>\<open>error_message\<close> to the literal \<open>not_connected\<close> ("Compte non connecte", its last
  letter with an acute accent). The failure counter is
  incremented, the success counter is kept, and the loop goes on with the next row. When
  the store accepts the update, every row of that id holds the literal.
\<close>

theorem not_connected_rule:
  assumes "socialAccounts = fst (fst (select_active_accounts (sel_user_id post) w0))"
    and "filter (\<lambda>a. account_user_id a = sel_user_id post \<and> is_active a
                      \<and> account_platform a = sc_platform content) (social_accounts w0) = []"
  shows "process_content publish post socialAccounts content (w, s, f)
           = (snd (update_post_content (sc_id content)
                     (SetErrorMessage (''Compte non connect'' @ [CHR 0xC3, CHR 0xA9])) w), s, Suc f)
       \<and> trace (fst (process_content publish post socialAccounts content (w, s, f)))
           = trace w @ [Request (UpdatePostContent (sc_id content)
                          (SetErrorMessage (''Compte non connect'' @ [CHR 0xC3, CHR 0xA9])))]
       \<and> (faults w (UpdatePostContent (sc_id content)
              (SetErrorMessage (''Compte non connect'' @ [CHR 0xC3, CHR 0xA9]))) = None \<longrightarrow>
            (\<forall>c \<in> set (post_content (fst (process_content publish post socialAccounts content (w, s, f)))).
               content_id c = sc_id content \<longrightarrow>
               error_message c = Some (''Compte non connect'' @ [CHR 0xC3, CHR 0xA9])))
       \<and> process_contents publish post socialAccounts (content # rest) (w, s, f)
           = process_contents publish post socialAccounts rest
               (snd (update_post_content (sc_id content)
                       (SetErrorMessage (''Compte non connect'' @ [CHR 0xC3, CHR 0xA9])) w), s, Suc f)"
proof -
  have nc: "''Compte non connect'' @ [CHR 0xC3, CHR 0xA9] = not_connected"
    by (simp add: not_connected_def e_acute_def)
  have none: "find_account socialAccounts (sc_platform content) = None"
    unfolding assms(1) by (rule find_account_none[OF assms(2)])
  note run = process_content_not_found[OF none, of publish post w s f]
  show ?thesis
    unfolding nc using error_after_update[of w "sc_id content" not_connected]
    by (simp add: run)
qed

theorem not_connected_rule_witness:
  "filter (\<lambda>a. account_user_id a = ''u1'' \<and> is_active a \<and> account_platform a = ''instagram'')
      (social_accounts (example_world [instagram_content] [facebook_account] (\<lambda>r. None))) = []
   \<and> snd (process_content publish_stub (example_post [instagram_content])
         (fst (fst (select_active_accounts ''u1''
            (example_world [instagram_content] [facebook_account] (\<lambda>r. None)))))
         instagram_content
         (example_world [instagram_content] [facebook_account] (\<lambda>r. None), 0, 0)) = (0, 1)
   \<and> trace (fst (process_content publish_stub (example_post [instagram_content])
         (fst (fst (select_active_accounts ''u1''
            (example_world [instagram_content] [facebook_account] (\<lambda>r. None)))))
         instagram_content
         (example_world [instagram_content] [facebook_account] (\<lambda>r. None), 0, 0)))
       = [Request (UpdatePostContent ''c1'' (SetErrorMessage not_connected))]
   \<and> map error_message (post_content (fst (process_content publish_stub
         (example_post [instagram_content])
         (fst (fst (select_active_accounts ''u1''
            (example_world [instagram_content] [facebook_account] (\<lambda>r. None)))))
         instagram_content
         (example_world [instagram_content] [facebook_account] (\<lambda>r. None), 0, 0))))
       = [Some not_connected]"
  using not_connected_rule[where post = "example_post [instagram_content]"
      and ?w0.0 = "example_world [instagram_content] [facebook_account] (\<lambda>r. None)"
      and content = instagram_content and publish = publish_stub
      and w = "example_world [instagram_content] [facebook_account] (\<lambda>r. None)"
      and s = 0 and f = 0 and rest = "[]", OF refl]
  by (simp add: example_defs run_defs not_connected_def e_acute_def)

text \<open>
  C5. Take a content row with a matching account, and any publish operation. When the
  operation returns a url, the success counter is incremented and one update is sent for
  the row: \<^verbatim>\<open>published_url\<close> the url, \<^verbatim>\<open>published_at\<close> the clock at that moment,
  \<^verbatim>\<open>error_message\<close> null. When it throws, the failure counter is incremented and one
  update is sent, of \<^verbatim>\<open>error_message\<close> alone, to the message thrown; \<^verbatim>\<open>published_url\<close> and
  \<^verbatim>\<open>published_at\<close> of every row stay as they were. No attempt sends both updates.
\<close>

theorem publish_outcome_rule:
  assumes "find_account socialAccounts (sc_platform content) = Some acc"
    and "publish (sc_platform content) (sc_content_text content) (sc_hashtags content)
           (sel_media_ids post) acc = (evs, res)"
  shows "let r = process_content publish post socialAccounts content (w, s, f);
             call = PublishCall (sc_platform content) (sc_content_text content)
                      (sc_hashtags content) (sel_media_ids post) acc
         in (case res of
               Inr url \<Rightarrow>
                 snd r = (Suc s, f)
                 \<and> trace (fst r) = trace w @ call # evs
                      @ [Request (UpdatePostContent (sc_id content) (SetPublished url (clock w)))]
                 \<and> (faults w (UpdatePostContent (sc_id content) (SetPublished url (clock w))) = None
                      \<longrightarrow> post_content (fst r)
                        = map (\<lambda>c. if content_id c = sc_id content
                                    then c\<lparr>published_url := Some url, published_at := Some (clock w),
                                           error_message := None\<rparr>
                                    else c) (post_content w))
             | Inl msg \<Rightarrow>
                 snd r = (s, Suc f)
                 \<and> trace (fst r) = trace w @ call # evs
                      @ [Request (UpdatePostContent (sc_id content) (SetErrorMessage msg))]
                 \<and> (faults w (UpdatePostContent (sc_id content) (SetErrorMessage msg)) = None
                      \<longrightarrow> post_content (fst r)
                        = map (\<lambda>c. if content_id c = sc_id content
                                    then c\<lparr>error_message := Some msg\<rparr> else c) (post_content w))
                 \<and> map published_url (post_content (fst r)) = map published_url (post_content w)
                 \<and> map published_at (post_content (fst r)) = map published_at (post_content w))"
proof (cases res)
  case (Inl msg)
  have keep: "map published_url (map (\<lambda>c. if content_id c = cid then c\<lparr>error_message := Some msg\<rparr> else c) cs)
                = map published_url cs"
       "map published_at (map (\<lambda>c. if content_id c = cid then c\<lparr>error_message := Some msg\<rparr> else c) cs)
                = map published_at cs" for cid cs
    by (induction cs) simp_all
  show ?thesis
    using Inl keep
    by (simp add: process_content_found[where publish = publish, OF assms] Let_def update_post_content_rows)
next
  case (Inr url)
  then show ?thesis
    by (simp add: process_content_found[where publish = publish, OF assms] Let_def update_post_content_rows)
qed

theorem publish_outcome_rule_witness:
  "find_account (Some [instagram_account, facebook_account]) ''facebook'' = Some facebook_account
   \<and> publish_stub ''facebook'' ''Hi'' (Some []) (Some [''m1'']) facebook_account
       = ([], Inr ''https://facebook.example/a2'')
   \<and> snd (process_content publish_stub (example_post [instagram_content, facebook_content]) (Some [instagram_account, facebook_account]) facebook_content (((example_world [instagram_content, facebook_content] [instagram_account, facebook_account]
        (\<lambda>r. None))
       \<lparr>post_content :=
          map (\<lambda>c. c\<lparr>error_message := Some ''old''\<rparr>)
            (post_content (example_world [instagram_content, facebook_content]
               [instagram_account, facebook_account] (\<lambda>r. None)))\<rparr>), 0, 0)) = (1, 0)
   \<and> map (\<lambda>c. (content_id c, published_url c, published_at c, error_message c))
         (post_content (fst (process_content publish_stub (example_post [instagram_content, facebook_content]) (Some [instagram_account, facebook_account]) facebook_content (((example_world [instagram_content, facebook_content] [instagram_account, facebook_account]
        (\<lambda>r. None))
       \<lparr>post_content :=
          map (\<lambda>c. c\<lparr>error_message := Some ''old''\<rparr>)
            (post_content (example_world [instagram_content, facebook_content]
               [instagram_account, facebook_account] (\<lambda>r. None)))\<rparr>), 0, 0))))
       = [(''c1'', None, None, Some ''old''),
          (''c2'', Some ''https://facebook.example/a2'', Some 10, None)]
   \<and> find_account (Some [instagram_account, facebook_account]) ''instagram'' = Some instagram_account
   \<and> publish_stub ''instagram'' ''Hello'' (Some [Some ''#a'', Some ''#b'']) (Some [''m1''])
       instagram_account
       = ([], Inl ''refused'')
   \<and> snd (process_content publish_stub (example_post [instagram_content, facebook_content]) (Some [instagram_account, facebook_account]) instagram_content (((example_world [instagram_content, facebook_content] [instagram_account, facebook_account]
        (\<lambda>r. None))
       \<lparr>post_content :=
          map (\<lambda>c. c\<lparr>error_message := Some ''old''\<rparr>)
            (post_content (example_world [instagram_content, facebook_content]
               [instagram_account, facebook_account] (\<lambda>r. None)))\<rparr>), 0, 0)) = (0, 1)
   \<and> map (\<lambda>c. (content_id c, published_url c, published_at c, error_message c))
         (post_content (fst (process_content publish_stub (example_post [instagram_content, facebook_content]) (Some [instagram_account, facebook_account]) instagram_content (((example_world [instagram_content, facebook_content] [instagram_account, facebook_account]
        (\<lambda>r. None))
       \<lparr>post_content :=
          map (\<lambda>c. c\<lparr>error_message := Some ''old''\<rparr>)
            (post_content (example_world [instagram_content, facebook_content]
               [instagram_account, facebook_account] (\<lambda>r. None)))\<rparr>), 0, 0))))
       = [(''c1'', None, None, Some ''refused''), (''c2'', None, None, Some ''old'')]"
proof -
  have f1: "find_account (Some [instagram_account, facebook_account]) (sc_platform facebook_content) = Some facebook_account"
    by (simp add: find_account_def example_defs)
  have p1: "publish_stub (sc_platform facebook_content) (sc_content_text facebook_content)
              (sc_hashtags facebook_content) (sel_media_ids (example_post [instagram_content, facebook_content])) facebook_account
            = ([], Inr ''https://facebook.example/a2'')"
    by (simp add: example_defs)
  have f2: "find_account (Some [instagram_account, facebook_account]) (sc_platform instagram_content) = Some instagram_account"
    by (simp add: find_account_def example_defs)
  have p2: "publish_stub (sc_platform instagram_content) (sc_content_text instagram_content)
              (sc_hashtags instagram_content) (sel_media_ids (example_post [instagram_content, facebook_content])) instagram_account
            = ([], Inl ''refused'')"
    by (simp add: example_defs)
  show ?thesis
    using publish_outcome_rule[where publish = publish_stub and w = "((example_world [instagram_content, facebook_content] [instagram_account, facebook_account]
        (\<lambda>r. None))
       \<lparr>post_content :=
          map (\<lambda>c. c\<lparr>error_message := Some ''old''\<rparr>)
            (post_content (example_world [instagram_content, facebook_content]
               [instagram_account, facebook_account] (\<lambda>r. None)))\<rparr>)" and s = 0 and f = 0,
        OF f1 p1]
      publish_outcome_rule[where publish = publish_stub and w = "((example_world [instagram_content, facebook_content] [instagram_account, facebook_account]
        (\<lambda>r. None))
       \<lparr>post_content :=
          map (\<lambda>c. c\<lparr>error_message := Some ''old''\<rparr>)
            (post_content (example_world [instagram_content, facebook_content]
               [instagram_account, facebook_account] (\<lambda>r. None)))\<rparr>)" and s = 0 and f = 0,
        OF f2 p2]
    by (simp add: example_defs run_defs)
qed

subsection \<open>The publish operation\<close>

lemma publishToSocialMedia_supported:
  assumes "platform \<in> {''instagram'', ''facebook'', ''tiktok'', ''pinterest''}"
  shows "fst (publishToSocialMedia platform caption (Some tags) media acc)
           = [PlatformPublish platform (caption @ [CHR 0x0A, CHR 0x0A] @ join_space tags) media acc]"
  using assms
  by (auto simp: publishToSocialMedia_def fullContent_def publishToInstagram_def
      publishToFacebook_def publishToTikTok_def publishToPinterest_def)

lemma publishToSocialMedia_unsupported:
  assumes "platform \<notin> {''instagram'', ''facebook'', ''tiktok'', ''pinterest''}"
  shows "publishToSocialMedia platform caption (Some tags) media acc
           = ([], Inl (unsupported platform))"
  using assms by (simp add: publishToSocialMedia_def)

lemma publishToSocialMedia_null:
  "publishToSocialMedia platform caption None media acc = ([], Inl null_join_error)"
  by (simp add: publishToSocialMedia_def)

text \<open>
  C10. On a row whose hashtags are null the error is another one: \<^verbatim>\<open>hashtags.join\<close>
  throws before the \<^verbatim>\<open>switch\<close> is reached, so for a row on the platform "twitter" with a
  matching account the error thrown, and stored in the row, is the \<^verbatim>\<open>TypeError\<close> of
  \<^verbatim>\<open>join\<close> and not the message that names the platform.
\<close>

theorem unsupported_platform_counterexample:
  "sc_platform (twitter_content\<lparr>sc_hashtags := None\<rparr>) \<notin> {''instagram'', ''facebook'', ''tiktok'', ''pinterest''}
   \<and> find_account (Some [twitter_account]) (sc_platform (twitter_content\<lparr>sc_hashtags := None\<rparr>)) = Some twitter_account
   \<and> publishToSocialMedia ''twitter'' ''Hey'' None (Some [''m1'']) twitter_account
       = ([], Inl null_join_error)
   \<and> null_join_error \<noteq> unsupported ''twitter''
   \<and> map (\<lambda>c. (content_id c, error_message c))
         (post_content (fst (process_content publishToSocialMedia (example_post [(twitter_content\<lparr>sc_hashtags := None\<rparr>)])
            (Some [twitter_account]) (twitter_content\<lparr>sc_hashtags := None\<rparr>)
            (example_world [(twitter_content\<lparr>sc_hashtags := None\<rparr>)] [twitter_account] (\<lambda>r. None), 0, 0))))
       = [(''c3'', Some null_join_error)]"
  by (simp add: example_defs run_defs publishToSocialMedia_def null_join_error_def unsupported_def)

text \<open>
  C10, as the code has it. Take a content row with a matching account, hashtags that are
  not null, and a platform that is none of the four. \<^verbatim>\<open>publishToSocialMedia\<close> calls no
  platform publisher and throws the message \<open>unsupported\<close> of the platform:
  "Plateforme non supportee: ", its first "e" with an acute accent, followed by the
  platform. The handler sends that message as the row's \<^verbatim>\<open>error_message\<close>, increments
  the failure counter and goes on with the rows that follow.
\<close>

theorem unsupported_platform_rule:
  assumes "sc_platform content \<notin> {''instagram'', ''facebook'', ''tiktok'', ''pinterest''}"
    and "sc_hashtags content = Some tags"
    and "find_account socialAccounts (sc_platform content) = Some acc"
  shows "publishToSocialMedia (sc_platform content) caption (Some hs) media acc
           = ([], Inl (''Plateforme non support'' @ [CHR 0xC3, CHR 0xA9] @ ''e: ''
                        @ sc_platform content))
       \<and> process_content publishToSocialMedia post socialAccounts content (w, s, f)
           = (snd (update_post_content (sc_id content)
                     (SetErrorMessage (''Plateforme non support'' @ [CHR 0xC3, CHR 0xA9] @ ''e: ''
                        @ sc_platform content))
                     (w\<lparr>trace := trace w
                          @ [PublishCall (sc_platform content) (sc_content_text content)
                               (sc_hashtags content) (sel_media_ids post) acc]\<rparr>)),
              s, Suc f)
       \<and> (faults w (UpdatePostContent (sc_id content)
                     (SetErrorMessage (''Plateforme non support'' @ [CHR 0xC3, CHR 0xA9] @ ''e: ''
                        @ sc_platform content))) = None \<longrightarrow>
            (\<forall>c \<in> set (post_content
                         (fst (process_content publishToSocialMedia post socialAccounts content
                                 (w, s, f)))).
               content_id c = sc_id content \<longrightarrow>
               error_message c = Some (''Plateforme non support'' @ [CHR 0xC3, CHR 0xA9] @ ''e: ''
                                        @ sc_platform content)))
       \<and> process_contents publishToSocialMedia post socialAccounts (content # rest) (w, s, f)
           = process_contents publishToSocialMedia post socialAccounts rest
               (process_content publishToSocialMedia post socialAccounts content (w, s, f))"
proof -
  have msg: "''Plateforme non support'' @ [CHR 0xC3, CHR 0xA9] @ ''e: '' @ sc_platform content
             = unsupported (sc_platform content)"
    by (simp add: unsupported_def e_acute_def)
  note pub = publishToSocialMedia_unsupported[OF assms(1)]
  have out: "publishToSocialMedia (sc_platform content) (sc_content_text content)
      (sc_hashtags content) (sel_media_ids post) acc = ([], Inl (unsupported (sc_platform content)))"
    unfolding assms(2) by (rule pub)
  have run: "process_content publishToSocialMedia post socialAccounts content (w, s, f)
           = (snd (update_post_content (sc_id content)
                     (SetErrorMessage (unsupported (sc_platform content)))
                     (w\<lparr>trace := trace w
                          @ [PublishCall (sc_platform content) (sc_content_text content)
                               (sc_hashtags content) (sel_media_ids post) acc]\<rparr>)),
              s, Suc f)"
    using process_content_found[where publish = publishToSocialMedia, OF assms(3) out]
    by simp
  have err: "error_message c = Some (unsupported (sc_platform content))"
    if "faults w (UpdatePostContent (sc_id content)
          (SetErrorMessage (unsupported (sc_platform content)))) = None"
      and "c \<in> set (post_content
             (fst (process_content publishToSocialMedia post socialAccounts content (w, s, f))))"
      and "content_id c = sc_id content" for c
    using that error_after_update[of
        "w\<lparr>trace := trace w
             @ [PublishCall (sc_platform content) (sc_content_text content)
                  (sc_hashtags content) (sel_media_ids post) acc]\<rparr>"
        "sc_id content" "unsupported (sc_platform content)" c]
    by (simp add: run)
  show ?thesis
    unfolding msg using err by (simp add: pub run)
qed

theorem unsupported_platform_rule_witness:
  "sc_platform twitter_content \<notin> {''instagram'', ''facebook'', ''tiktok'', ''pinterest''}
   \<and> sc_hashtags twitter_content = Some [Some ''#x'']
   \<and> find_account (Some [twitter_account]) (sc_platform twitter_content) = Some twitter_account
   \<and> publishToSocialMedia ''twitter'' ''Hey'' (Some [Some ''#x'']) (Some [''m1'']) twitter_account
       = ([], Inl (''Plateforme non support'' @ [CHR 0xC3, CHR 0xA9] @ ''e: twitter''))
   \<and> snd (process_content publishToSocialMedia (example_post [twitter_content, instagram_content]) (Some [twitter_account]) twitter_content
             ((example_world [twitter_content, instagram_content] [twitter_account] (\<lambda>r. None)), 0, 0)) = (0, 1)
   \<and> map (\<lambda>c. (content_id c, error_message c))
         (post_content (fst (process_content publishToSocialMedia (example_post [twitter_content, instagram_content]) (Some [twitter_account])
            twitter_content ((example_world [twitter_content, instagram_content] [twitter_account] (\<lambda>r. None)), 0, 0))))
       = [(''c3'', Some (''Plateforme non support'' @ [CHR 0xC3, CHR 0xA9] @ ''e: twitter'')),
          (''c1'', None)]
   \<and> snd (process_contents publishToSocialMedia (example_post [twitter_content, instagram_content]) (Some [twitter_account])
             [twitter_content, instagram_content] ((example_world [twitter_content, instagram_content] [twitter_account] (\<lambda>r. None)), 0, 0)) = (0, 2)"
proof -
  have h1: "sc_platform twitter_content \<notin> {''instagram'', ''facebook'', ''tiktok'', ''pinterest''}"
    by (simp add: example_defs)
  have h2: "sc_hashtags twitter_content = Some [Some ''#x'']"
    by (simp add: example_defs)
  have h3: "find_account (Some [twitter_account]) (sc_platform twitter_content)
              = Some twitter_account"
    by (simp add: find_account_def example_defs)
  show ?thesis
    using unsupported_platform_rule[OF h1 h2 h3, where caption = "''Hey''"
        and hs = "[Some ''#x'']" and media = "Some [''m1'']" and post = "(example_post [twitter_content, instagram_content])" and w = "(example_world [twitter_content, instagram_content] [twitter_account] (\<lambda>r. None))"
        and s = 0 and f = 0 and rest = "[instagram_content]"]
    by (simp add: example_defs run_defs not_connected_def e_acute_def)
qed

text \<open>
  C9. The text a platform publisher receives is not the caption followed at once by the
  joined hashtags: two line feeds stand between them. For the caption "Hello" and the
  hashtags "#a" and "#b", no publisher is called with "Hello#a #b". And a row with a
  matching account whose hashtags are null has no text passed to any publisher: the
  publish operation throws before it calls one.
\<close>

theorem caption_concatenation_counterexample:
  "find_account (Some [instagram_account]) (sc_platform instagram_content) = Some instagram_account
   \<and> sc_hashtags instagram_content = Some [Some ''#a'', Some ''#b'']
   \<and> sc_content_text instagram_content @ join_space [Some ''#a'', Some ''#b''] = ''Hello#a #b''
   \<and> PlatformPublish ''instagram'' ''Hello#a #b'' (Some [''m1'']) instagram_account
       \<notin> set (trace (fst (process_content publishToSocialMedia (example_post [instagram_content]) (Some [instagram_account])
                 instagram_content ((example_world [instagram_content] [instagram_account] (\<lambda>r. None)), 0, 0))))
   \<and> trace (fst (process_content publishToSocialMedia (example_post [instagram_content]) (Some [instagram_account])
                 instagram_content ((example_world [instagram_content] [instagram_account] (\<lambda>r. None)), 0, 0)))
       = [PublishCall ''instagram'' ''Hello'' (Some [Some ''#a'', Some ''#b'']) (Some [''m1''])
            instagram_account,
          PlatformPublish ''instagram'' (''Hello'' @ [CHR 0x0A, CHR 0x0A] @ ''#a #b'')
            (Some [''m1'']) instagram_account,
          Request (UpdatePostContent ''c1'' (SetErrorMessage oauth_instagram))]
   \<and> trace (fst (process_content publishToSocialMedia (example_post [(instagram_content\<lparr>sc_hashtags := None\<rparr>)])
                 (Some [instagram_account]) (instagram_content\<lparr>sc_hashtags := None\<rparr>)
                 (example_world [(instagram_content\<lparr>sc_hashtags := None\<rparr>)] [instagram_account] (\<lambda>r. None), 0, 0)))
       = [PublishCall ''instagram'' ''Hello'' None (Some [''m1'']) instagram_account,
          Request (UpdatePostContent ''c1'' (SetErrorMessage null_join_error))]"
  by (simp add: example_defs run_defs publishToSocialMedia_def publishToInstagram_def
      fullContent_def)

text \<open>
  C9, as the code has it. For a content row with a matching account, the publish
  operation is called with the row's platform, caption and hashtags, the post's media
  references and the matched account. When the hashtags are not null and the platform is
  supported, it calls the publisher of that platform once, with the caption, two line
  feeds and the hashtags joined by single spaces as text, the same media references and
  the same account; on any other platform, and on null hashtags, it calls no publisher.
\<close>

theorem publish_arguments_rule:
  assumes "find_account socialAccounts (sc_platform content) = Some acc"
  shows "let outcome = publishToSocialMedia (sc_platform content) (sc_content_text content)
                         (sc_hashtags content) (sel_media_ids post) acc
         in trace (fst (process_content publishToSocialMedia post socialAccounts content (w, s, f)))
              = trace w
                @ PublishCall (sc_platform content) (sc_content_text content) (sc_hashtags content)
                    (sel_media_ids post) acc
                # fst outcome
                @ [Request (UpdatePostContent (sc_id content)
                     (case snd outcome of
                        Inl msg \<Rightarrow> SetErrorMessage msg
                      | Inr url \<Rightarrow> SetPublished url (clock w)))]
            \<and> fst outcome
              = (case sc_hashtags content of
                   None \<Rightarrow> []
                 | Some tags \<Rightarrow>
                     (if sc_platform content \<in> {''instagram'', ''facebook'', ''tiktok'', ''pinterest''}
                      then [PlatformPublish (sc_platform content)
                              (sc_content_text content @ [CHR 0x0A, CHR 0x0A] @ join_space tags)
                              (sel_media_ids post) acc]
                      else []))"
proof -
  obtain evs res where out: "publishToSocialMedia (sc_platform content) (sc_content_text content)
      (sc_hashtags content) (sel_media_ids post) acc = (evs, res)"
    by (cases "publishToSocialMedia (sc_platform content) (sc_content_text content)
      (sc_hashtags content) (sel_media_ids post) acc")
  have tr: "trace (fst (process_content publishToSocialMedia post socialAccounts content (w, s, f)))
      = trace w
        @ PublishCall (sc_platform content) (sc_content_text content) (sc_hashtags content)
            (sel_media_ids post) acc
        # evs
        @ [Request (UpdatePostContent (sc_id content)
             (case res of Inl msg \<Rightarrow> SetErrorMessage msg | Inr url \<Rightarrow> SetPublished url (clock w)))]"
    by (cases res)
      (simp_all add: process_content_found[where publish = publishToSocialMedia, OF assms out])
  have evs: "evs
      = (case sc_hashtags content of
           None \<Rightarrow> []
         | Some tags \<Rightarrow>
             (if sc_platform content \<in> {''instagram'', ''facebook'', ''tiktok'', ''pinterest''}
              then [PlatformPublish (sc_platform content)
                      (sc_content_text content @ [CHR 0x0A, CHR 0x0A] @ join_space tags)
                      (sel_media_ids post) acc]
              else []))"
  proof (cases "sc_hashtags content")
    case None
    show ?thesis
      using out publishToSocialMedia_null[of "sc_platform content" "sc_content_text content"
          "sel_media_ids post" acc]
      by (simp add: None)
  next
    case (Some tags)
    show ?thesis
    proof (cases "sc_platform content \<in> {''instagram'', ''facebook'', ''tiktok'', ''pinterest''}")
      case True
      show ?thesis
        using publishToSocialMedia_supported[OF True, of "sc_content_text content" tags
            "sel_media_ids post" acc] True out
        by (simp add: Some)
    next
      case False
      show ?thesis
        using publishToSocialMedia_unsupported[OF False, of "sc_content_text content" tags
            "sel_media_ids post" acc] False out
        by (simp add: Some)
    qed
  qed
  show ?thesis
    unfolding Let_def out using tr evs by simp
qed

theorem publish_arguments_rule_witness:
  "find_account (Some [instagram_account]) (sc_platform instagram_content) = Some instagram_account
   \<and> sc_hashtags instagram_content = Some [Some ''#a'', Some ''#b'']
   \<and> trace (fst (process_content publishToSocialMedia (example_post [instagram_content]) (Some [instagram_account])
                 instagram_content ((example_world [instagram_content] [instagram_account] (\<lambda>r. None)), 0, 0)))
       = [PublishCall ''instagram'' ''Hello'' (Some [Some ''#a'', Some ''#b'']) (Some [''m1''])
            instagram_account,
          PlatformPublish ''instagram'' (''Hello'' @ [CHR 0x0A, CHR 0x0A] @ ''#a #b'')
            (Some [''m1'']) instagram_account,
          Request (UpdatePostContent ''c1'' (SetErrorMessage oauth_instagram))]"
proof -
  have h: "find_account (Some [instagram_account]) (sc_platform instagram_content)
             = Some instagram_account"
    by (simp add: find_account_def example_defs)
  show ?thesis
    using publish_arguments_rule[OF h, of "(example_post [instagram_content])" "(example_world [instagram_content] [instagram_account] (\<lambda>r. None))" 0 0]
    by (simp add: example_defs run_defs publishToSocialMedia_def publishToInstagram_def
      fullContent_def)
qed

subsection \<open>Posts\<close>

lemma select_active_accounts_reply:
  "fst (fst (select_active_accounts uid w)) =
     (case faults w (SelectActiveAccounts uid) of
        Some e \<Rightarrow> None
      | None \<Rightarrow> Some (filter (\<lambda>a. account_user_id a = uid \<and> is_active a) (social_accounts w)))"
  by (simp add: select_active_accounts_def split: option.splits)

lemma process_content_trace: "set (trace (fst st)) \<subseteq> set (trace (fst (process_content publish post accs c st)))"
  by (auto simp: process_content_def Let_def split: prod.splits option.splits sum.splits)

lemma process_contents_trace:
  "set (trace (fst st)) \<subseteq> set (trace (fst (process_contents publish post accs cs st)))"
proof (induction cs arbitrary: st)
  case Nil
  show ?case by simp
next
  case (Cons c cs)
  show ?case
    using process_content_trace[of st publish post accs c]
      Cons.IH[of "process_content publish post accs c st"]
    by (simp del: set_append)
qed

lemma process_post_failed:
  assumes "faults w (UpdatePostStatus (sel_id post) ''publishing'') = Some e"
  shows "process_post publish post w =
     (PostError (sel_id post) (sel_title post) e,
      snd (update_post_status (sel_id post) ''failed''
             (snd (update_post_status (sel_id post) ''publishing'' w))))"
proof -
  obtain r w1 where u: "update_post_status (sel_id post) ''publishing'' w = (r, w1)"
    by (cases "update_post_status (sel_id post) ''publishing'' w")
  have "r = Some e"
    using update_post_status_reply[of "sel_id post" "''publishing''" w] assms by (simp add: u)
  then show ?thesis
    by (simp add: process_post_def u)
qed

lemma process_post_id: "summary_post_id (fst (process_post publish post w)) = sel_id post"
proof (cases "faults w (UpdatePostStatus (sel_id post) ''publishing'')")
  case None
  show ?thesis by (simp add: process_post_normal[OF None] Let_def)
next
  case (Some e)
  show ?thesis by (simp add: process_post_failed[OF Some])
qed



lemma process_posts_Cons:
  "process_posts publish (post # rest) w =
     (fst (process_post publish post w) # fst (process_posts publish rest (snd (process_post publish post w))),
      snd (process_posts publish rest (snd (process_post publish post w))))"
  by (simp split: prod.splits)

lemma process_posts_ids: "map summary_post_id (fst (process_posts publish ps w)) = map sel_id ps"
  by (induction ps arbitrary: w) (simp_all add: process_posts_Cons process_post_id del: process_posts.simps(2))



subsection \<open>The final status of a post\<close>

lemma process_content_counts:
  "snd (process_content publish post accs c (w, s, f))
     = (if row_published publish post accs c then (Suc s, f) else (s, Suc f))"
  by (simp add: process_content_def row_published_def Let_def
      split: option.splits prod.splits sum.splits)

lemma process_contents_counts:
  "snd (process_contents publish post accs cs (w, s, f))
     = (s + length (filter (row_published publish post accs) cs),
        f + length (filter (\<lambda>c. \<not> row_published publish post accs c) cs))"
proof (induction cs arbitrary: w s f)
  case Nil
  show ?case by simp
next
  case (Cons c cs)
  obtain w1 s1 f1 where st: "process_content publish post accs c (w, s, f) = (w1, s1, f1)"
    by (cases "process_content publish post accs c (w, s, f)")
  have one: "(s1, f1) = (if row_published publish post accs c then (Suc s, f) else (s, Suc f))"
    using process_content_counts[of publish post accs c w s f] by (simp add: st)
  show ?case
    using Cons.IH[of w1 s1 f1] one by (simp add: st split: if_splits)
qed

lemma process_content_request:
  "\<exists>u. Request (UpdatePostContent (sc_id c) u)
         \<in> set (trace (fst (process_content publish post accs c st)))
       \<and> (case u of
            SetPublished url t \<Rightarrow> row_published publish post accs c
          | SetErrorMessage m \<Rightarrow> \<not> row_published publish post accs c)"
proof -
  obtain w s f where st: "st = (w, s, f)"
    by (cases st)
  show ?thesis
  proof (cases "find_account accs (sc_platform c)")
    case None
    have "Request (UpdatePostContent (sc_id c) (SetErrorMessage not_connected))
        \<in> set (trace (fst (process_content publish post accs c st)))"
      by (simp add: st process_content_not_found[OF None])
    moreover have "\<not> row_published publish post accs c"
      by (simp add: row_published_def None)
    ultimately show ?thesis
      by (intro exI[of _ "SetErrorMessage not_connected"]) simp
  next
    case (Some acc)
    obtain evs res where out: "publish (sc_platform c) (sc_content_text c) (sc_hashtags c)
        (sel_media_ids post) acc = (evs, res)"
      by (cases "publish (sc_platform c) (sc_content_text c) (sc_hashtags c)
        (sel_media_ids post) acc")
    note run = process_content_found[where publish = publish, OF Some out, of w s f]
    show ?thesis
    proof (cases res)
      case (Inl msg)
      have "Request (UpdatePostContent (sc_id c) (SetErrorMessage msg))
          \<in> set (trace (fst (process_content publish post accs c st)))"
        by (simp add: st run Inl)
      moreover have "\<not> row_published publish post accs c"
        by (simp add: row_published_def Some out Inl)
      ultimately show ?thesis
        by (intro exI[of _ "SetErrorMessage msg"]) simp
    next
      case (Inr url)
      have "Request (UpdatePostContent (sc_id c) (SetPublished url (clock w)))
          \<in> set (trace (fst (process_content publish post accs c st)))"
        by (simp add: st run Inr)
      moreover have "row_published publish post accs c"
        by (simp add: row_published_def Some out Inr)
      ultimately show ?thesis
        by (intro exI[of _ "SetPublished url (clock w)"]) simp
    qed
  qed
qed

lemma process_contents_request:
  assumes "c \<in> set cs"
  shows "\<exists>u. Request (UpdatePostContent (sc_id c) u)
           \<in> set (trace (fst (process_contents publish post accs cs st)))
         \<and> (case u of
              SetPublished url t \<Rightarrow> row_published publish post accs c
            | SetErrorMessage m \<Rightarrow> \<not> row_published publish post accs c)"
  using assms
proof (induction cs arbitrary: st)
  case Nil
  then show ?case by simp
next
  case (Cons d cs)
  show ?case
  proof (cases "c = d")
    case True
    obtain u where u: "Request (UpdatePostContent (sc_id c) u)
          \<in> set (trace (fst (process_content publish post accs d st)))"
      and k: "case u of
            SetPublished url t \<Rightarrow> row_published publish post accs c
          | SetErrorMessage m \<Rightarrow> \<not> row_published publish post accs c"
      using process_content_request[of c publish post accs st] True by blast
    have "Request (UpdatePostContent (sc_id c) u)
        \<in> set (trace (fst (process_contents publish post accs (d # cs) st)))"
      using u process_contents_trace[of "process_content publish post accs d st" publish post
          accs cs]
      by auto
    then show ?thesis using k by blast
  next
    case False
    then have "c \<in> set cs" using Cons.prems by simp
    then show ?thesis
      using Cons.IH[of "process_content publish post accs d st"] by simp
  qed
qed

text \<open>
  C1. When the update to \<^verbatim>\<open>publishing\<close> is accepted, the post is summarised by its two
  counters: the success counter is the number of its content rows that were published
  (an account matched and the publish operation returned a url), the failure counter the
  number of the others. For each published row the update with its \<^verbatim>\<open>published_url\<close> was
  sent, for each other row an update of \<^verbatim>\<open>error_message\<close>. The last request of the
  post's processing writes \<open>finalStatus\<close> of the counters; when that write is accepted,
  it is the status of the post in the table. The status written is \<^verbatim>\<open>published\<close> exactly
  when no row failed or some row succeeded, \<^verbatim>\<open>failed\<close> exactly when no row succeeded and
  some row failed; so a post with one published row is written \<^verbatim>\<open>published\<close>, whatever
  the number of rows that failed.
\<close>

theorem final_status_rule:
  assumes "faults w (UpdatePostStatus (sel_id post) ''publishing'') = None"
  shows "let ok = row_published publish post
                    (fst (fst (select_active_accounts (sel_user_id post) w)))
         in case process_post publish post w of
              (Counts pid title s f, w') \<Rightarrow>
                pid = sel_id post \<and> title = sel_title post
                \<and> s = length (filter ok (sel_post_content post))
                \<and> f = length (filter (\<lambda>c. \<not> ok c) (sel_post_content post))
                \<and> (\<forall>c \<in> set (sel_post_content post).
                      \<exists>u. Request (UpdatePostContent (sc_id c) u) \<in> set (trace w')
                          \<and> (case u of SetPublished url t \<Rightarrow> ok c | SetErrorMessage m \<Rightarrow> \<not> ok c))
                \<and> last (trace w') = Request (UpdatePostStatus (sel_id post) (finalStatus s f))
                \<and> (faults w (UpdatePostStatus (sel_id post) (finalStatus s f)) = None \<longrightarrow>
                     (\<forall>p \<in> set (posts w').
                        post_id p = sel_id post \<longrightarrow> post_status p = finalStatus s f))
                \<and> (finalStatus s f = ''published'' \<longleftrightarrow> f = 0 \<or> 0 < s)
                \<and> (finalStatus s f = ''failed'' \<longleftrightarrow> s = 0 \<and> 0 < f)
                \<and> ((\<exists>c \<in> set (sel_post_content post). ok c) \<longrightarrow> finalStatus s f = ''published'')
            | (PostError pid title msg, w') \<Rightarrow> False"
proof -
  define w1 where "w1 = snd (update_post_status (sel_id post) ''publishing'' w)"
  define accs where "accs = fst (fst (select_active_accounts (sel_user_id post) w1))"
  define w2 where "w2 = snd (select_active_accounts (sel_user_id post) w1)"
  define r where "r = process_contents publish post accs (sel_post_content post) (w2, 0, 0)"
  define s where "s = fst (snd r)"
  define f where "f = snd (snd r)"
  define w' where "w' = snd (update_post_status (sel_id post) (finalStatus s f) (fst r))"
  define ok where "ok = row_published publish post accs"
  have accs: "fst (fst (select_active_accounts (sel_user_id post) w)) = accs"
    by (simp add: accs_def w1_def select_active_accounts_reply split: option.splits)
  have run: "process_post publish post w = (Counts (sel_id post) (sel_title post) s f, w')"
    unfolding process_post_normal[OF assms] Let_def w1_def accs_def w2_def r_def s_def f_def w'_def ..
  have fl: "faults (fst r) = faults w"
    by (simp add: r_def w2_def w1_def)
  have cnt: "s = length (filter ok (sel_post_content post))"
      "f = length (filter (\<lambda>c. \<not> ok c) (sel_post_content post))"
    using process_contents_counts[of publish post accs "sel_post_content post" w2 0 0]
    by (simp_all add: s_def f_def r_def ok_def)
  have req: "\<exists>u. Request (UpdatePostContent (sc_id c) u) \<in> set (trace w')
                \<and> (case u of SetPublished url t \<Rightarrow> ok c | SetErrorMessage m \<Rightarrow> \<not> ok c)"
    if mem: "c \<in> set (sel_post_content post)" for c
  proof -
    obtain u where "Request (UpdatePostContent (sc_id c) u) \<in> set (trace (fst r))"
      and k: "case u of SetPublished url t \<Rightarrow> ok c | SetErrorMessage m \<Rightarrow> \<not> ok c"
      using process_contents_request[OF mem, of publish post accs "(w2, 0, 0)"]
      unfolding r_def ok_def by blast
    then have "Request (UpdatePostContent (sc_id c) u) \<in> set (trace w')"
      by (simp add: w'_def)
    then show ?thesis using k by blast
  qed
  have tr: "last (trace w') = Request (UpdatePostStatus (sel_id post) (finalStatus s f))"
    by (simp add: w'_def)
  have st: "post_status p = finalStatus s f"
    if "faults w (UpdatePostStatus (sel_id post) (finalStatus s f)) = None"
      and "p \<in> set (posts w')" and "post_id p = sel_id post" for p
    using status_after_update[of "fst r" "sel_id post" "finalStatus s f" p] that fl
    by (simp add: w'_def)
  have some: "finalStatus s f = ''published''" if "\<exists>c \<in> set (sel_post_content post). ok c"
  proof -
    have "filter ok (sel_post_content post) \<noteq> []"
      using that by (simp add: filter_empty_conv)
    then have "0 < s" by (simp add: cnt(1))
    then show ?thesis by (simp add: finalStatus_published)
  qed
  show ?thesis
    unfolding Let_def accs ok_def[symmetric] run
    using cnt req tr st some by (simp add: finalStatus_published finalStatus_failed)
qed

theorem final_status_rule_witness:
  "faults (example_world [instagram_content, facebook_content] [instagram_account, facebook_account]
         (\<lambda>r. None)) (UpdatePostStatus ''p1'' ''publishing'') = None
   \<and> row_published publish_stub (example_post [instagram_content, facebook_content]) (Some [instagram_account, facebook_account]) facebook_content
   \<and> \<not> row_published publish_stub (example_post [instagram_content, facebook_content]) (Some [instagram_account, facebook_account])
         instagram_content
   \<and> fst (process_post publish_stub (example_post [instagram_content, facebook_content]) (example_world [instagram_content, facebook_content] [instagram_account, facebook_account]
         (\<lambda>r. None))) = Counts ''p1'' ''Launch'' 1 1
   \<and> map (\<lambda>p. (post_id p, post_status p)) (posts (snd (process_post publish_stub (example_post [instagram_content, facebook_content]) (example_world [instagram_content, facebook_content] [instagram_account, facebook_account]
         (\<lambda>r. None)))))
       = [(''p1'', ''published'')]
   \<and> finalStatus 1 1 = ''published''
   \<and> fst (process_post publish_stub (example_post [facebook_content]) (example_world [facebook_content] [facebook_account] (\<lambda>r. None))) = Counts ''p1'' ''Launch'' 1 0
   \<and> map (\<lambda>p. (post_id p, post_status p)) (posts (snd (process_post publish_stub (example_post [facebook_content]) (example_world [facebook_content] [facebook_account] (\<lambda>r. None)))))
       = [(''p1'', ''published'')]
   \<and> fst (process_post publish_stub (example_post [instagram_content]) (example_world [instagram_content] [instagram_account] (\<lambda>r. None))) = Counts ''p1'' ''Launch'' 0 1
   \<and> map (\<lambda>p. (post_id p, post_status p)) (posts (snd (process_post publish_stub (example_post [instagram_content]) (example_world [instagram_content] [instagram_account] (\<lambda>r. None)))))
       = [(''p1'', ''failed'')]"
  using final_status_rule[of "(example_world [instagram_content, facebook_content] [instagram_account, facebook_account]
         (\<lambda>r. None))" "(example_post [instagram_content, facebook_content])" publish_stub] final_status_rule[of "(example_world [facebook_content] [facebook_account] (\<lambda>r. None))" "(example_post [facebook_content])" publish_stub]
    final_status_rule[of "(example_world [instagram_content] [instagram_account] (\<lambda>r. None))" "(example_post [instagram_content])" publish_stub]
  by (simp add: example_defs run_defs row_published_def)




text \<open>
  C7. The store refuses the query for the active accounts of user u1, who has an active
  instagram account and two due posts. The handler reads \<^verbatim>\<open>data\<close> of that reply and
  never its \<^verbatim>\<open>error\<close>: no post takes the error path. The instagram row of the first post
  is marked \<open>not_connected\<close> and the post is summarised by the counts 0 and 1; the
  second post, which has no content row, is summarised by 0 and 0 and becomes
  \<^verbatim>\<open>published\<close>. No summary carries an error.
\<close>

theorem accounts_error_dropped:
  "fst (handler ''POST'' (two_post_world [instagram_content] [instagram_account]
        (refusing (SelectActiveAccounts ''u1'') ''connection lost'')))
     = \<lparr>http_status = 200,
        response_body =
          Finished (''Publication termin'' @ [CHR 0xC3, CHR 0xA9] @ ''e'') 2
            [Counts ''p1'' ''Launch'' 0 1, Counts ''p2'' ''Sequel'' 0 0]\<rparr>
   \<and> map (\<lambda>c. (content_id c, error_message c)) (post_content (snd (handler ''POST'' (two_post_world [instagram_content] [instagram_account]
        (refusing (SelectActiveAccounts ''u1'') ''connection lost'')))))
       = [(''c1'', Some (''Compte non connect'' @ [CHR 0xC3, CHR 0xA9]))]
   \<and> map (\<lambda>p. (post_id p, post_status p)) (posts (snd (handler ''POST'' (two_post_world [instagram_content] [instagram_account]
        (refusing (SelectActiveAccounts ''u1'') ''connection lost'')))))
       = [(''p1'', ''failed''), (''p2'', ''published'')]
   \<and> trace (snd (handler ''POST'' (two_post_world [instagram_content] [instagram_account]
        (refusing (SelectActiveAccounts ''u1'') ''connection lost''))))
       = [Request (SelectDuePosts 10),
          Request (UpdatePostStatus ''p1'' ''publishing''),
          Request (SelectActiveAccounts ''u1''),
          Request (UpdatePostContent ''c1''
            (SetErrorMessage (''Compte non connect'' @ [CHR 0xC3, CHR 0xA9]))),
          Request (UpdatePostStatus ''p1'' ''failed''),
          Request (UpdatePostStatus ''p2'' ''publishing''),
          Request (SelectActiveAccounts ''u1''),
          Request (UpdatePostStatus ''p2'' ''published'')]"
  by (simp add: example_defs run_defs select_defs not_connected_def e_acute_def)

subsection \<open>The platform publishers\<close>

lemma publishToSocialMedia_thrown:
  assumes "platform \<in> {''instagram'', ''facebook'', ''tiktok'', ''pinterest''}"
  shows "snd (publishToSocialMedia platform caption (Some tags) media acc)
           = Inl (if platform = ''instagram'' then oauth_instagram
                  else if platform = ''facebook'' then oauth_facebook
                  else if platform = ''tiktok'' then oauth_tiktok
                  else oauth_pinterest)"
  using assms
  by (auto simp: publishToSocialMedia_def publishToInstagram_def
      publishToFacebook_def publishToTikTok_def publishToPinterest_def)

lemma single_row_post:
  assumes rows: "sel_post_content post = [row]"
    and sup: "sc_platform row \<in> {''instagram'', ''facebook'', ''tiktok'', ''pinterest''}"
    and acc: "find (\<lambda>a. account_platform a = sc_platform row)
                (filter (\<lambda>a. account_user_id a = sel_user_id post \<and> is_active a)
                   (social_accounts w)) = Some a"
    and f1: "faults w (UpdatePostStatus (sel_id post) ''publishing'') = None"
    and f2: "faults w (SelectActiveAccounts (sel_user_id post)) = None"
    and tags: "sc_hashtags row = Some tags"
    and m: "m = (if sc_platform row = ''instagram'' then oauth_instagram
                 else if sc_platform row = ''facebook'' then oauth_facebook
                 else if sc_platform row = ''tiktok'' then oauth_tiktok
                 else oauth_pinterest)"
    and w': "w' = snd (process_post publishToSocialMedia post w)"
  shows "fst (process_post publishToSocialMedia post w) = Counts (sel_id post) (sel_title post) 0 1"
    and "last (trace w') = Request (UpdatePostStatus (sel_id post) ''failed'')"
    and "faults w (UpdatePostStatus (sel_id post) ''failed'') = None \<Longrightarrow>
           p \<in> set (posts w') \<Longrightarrow> post_id p = sel_id post \<Longrightarrow> post_status p = ''failed''"
    and "faults w (UpdatePostContent (sc_id row) (SetErrorMessage m)) = None \<Longrightarrow>
           c \<in> set (post_content w') \<Longrightarrow> content_id c = sc_id row \<Longrightarrow> error_message c = Some m"
proof -
  define w1 where "w1 = snd (update_post_status (sel_id post) ''publishing'' w)"
  define w2 where "w2 = snd (select_active_accounts (sel_user_id post) w1)"
  define accs where "accs = fst (fst (select_active_accounts (sel_user_id post) w1))"
  define call where "call = PublishCall (sc_platform row) (sc_content_text row) (sc_hashtags row)
      (sel_media_ids post) a"
  obtain evs where out: "publishToSocialMedia (sc_platform row) (sc_content_text row)
      (sc_hashtags row) (sel_media_ids post) a = (evs, Inl m)"
    using publishToSocialMedia_thrown[OF sup, of "sc_content_text row" tags
        "sel_media_ids post" a] m tags
    by (cases "publishToSocialMedia (sc_platform row) (sc_content_text row)
      (sc_hashtags row) (sel_media_ids post) a") simp
  define w3 where "w3 = snd (update_post_content (sc_id row) (SetErrorMessage m)
      (w2\<lparr>trace := trace w2 @ call # evs\<rparr>))"
  have found: "find_account accs (sc_platform row) = Some a"
    using acc f2 by (simp add: accs_def w1_def select_active_accounts_reply find_account_def)
  have row: "process_content publishToSocialMedia post accs row (w2, 0, 0) = (w3, 0, Suc 0)"
    using process_content_found[where publish = publishToSocialMedia, OF found out, of w2 0 0]
    by (simp add: w3_def call_def)
  have run: "process_post publishToSocialMedia post w =
      (Counts (sel_id post) (sel_title post) 0 1,
       snd (update_post_status (sel_id post) ''failed'' w3))"
    by (simp add: process_post_normal[OF f1] Let_def rows finalStatus_def
        w1_def[symmetric] w2_def[symmetric] accs_def[symmetric] row)
  have w'_eq: "w' = snd (update_post_status (sel_id post) ''failed'' w3)"
    by (simp add: w' run)
  have fl3: "faults w3 = faults w"
    by (simp add: w3_def w2_def w1_def)
  show "fst (process_post publishToSocialMedia post w) = Counts (sel_id post) (sel_title post) 0 1"
    by (simp add: run)
  show "last (trace w') = Request (UpdatePostStatus (sel_id post) ''failed'')"
    by (simp add: w'_eq)
  show "post_status p = ''failed''"
    if "faults w (UpdatePostStatus (sel_id post) ''failed'') = None"
      and "p \<in> set (posts w')" and "post_id p = sel_id post"
    using status_after_update[of w3 "sel_id post" "''failed''" p] that fl3
    by (simp add: w'_eq)
  show "error_message c = Some m"
    if "faults w (UpdatePostContent (sc_id row) (SetErrorMessage m)) = None"
      and "c \<in> set (post_content w')" and "content_id c = sc_id row"
    using error_after_update[of "w2\<lparr>trace := trace w2 @ call # evs\<rparr>" "sc_id row" m c] that
    by (simp add: w'_eq w3_def w2_def w1_def)
qed

text \<open>
  C4. On a row whose hashtags are null the message stored is not the OAuth one. For a post
  whose only row is such an instagram row, with an active instagram account of its owner,
  \<^verbatim>\<open>hashtags.join\<close> throws before the publisher is called: the post ends \<^verbatim>\<open>failed\<close>, but
  the row's \<^verbatim>\<open>error_message\<close> is the message of that \<^verbatim>\<open>TypeError\<close>, which says nothing
  of OAuth.
\<close>

theorem oauth_required_counterexample:
  "sel_post_content (example_post [(instagram_content\<lparr>sc_hashtags := None\<rparr>)]) = [(instagram_content\<lparr>sc_hashtags := None\<rparr>)]
   \<and> sc_platform (instagram_content\<lparr>sc_hashtags := None\<rparr>) = ''instagram''
   \<and> find (\<lambda>a. account_platform a = ''instagram'')
         (filter (\<lambda>a. account_user_id a = ''u1'' \<and> is_active a)
            (social_accounts (example_world [(instagram_content\<lparr>sc_hashtags := None\<rparr>)] [instagram_account] (\<lambda>r. None))))
       = Some instagram_account
   \<and> fst (process_post publishToSocialMedia (example_post [(instagram_content\<lparr>sc_hashtags := None\<rparr>)])
            (example_world [(instagram_content\<lparr>sc_hashtags := None\<rparr>)] [instagram_account] (\<lambda>r. None)))
       = Counts ''p1'' ''Launch'' 0 1
   \<and> map (\<lambda>p. (post_id p, post_status p))
         (posts (snd (process_post publishToSocialMedia (example_post [(instagram_content\<lparr>sc_hashtags := None\<rparr>)])
            (example_world [(instagram_content\<lparr>sc_hashtags := None\<rparr>)] [instagram_account] (\<lambda>r. None)))))
       = [(''p1'', ''failed'')]
   \<and> map (\<lambda>c. (content_id c, error_message c))
         (post_content (snd (process_post publishToSocialMedia (example_post [(instagram_content\<lparr>sc_hashtags := None\<rparr>)])
            (example_world [(instagram_content\<lparr>sc_hashtags := None\<rparr>)] [instagram_account] (\<lambda>r. None)))))
       = [(''c1'', Some (''Cannot read properties of null (reading '' @ [CHR 0x27] @ ''join''
                          @ [CHR 0x27] @ '')''))]
   \<and> trace (snd (process_post publishToSocialMedia (example_post [(instagram_content\<lparr>sc_hashtags := None\<rparr>)])
            (example_world [(instagram_content\<lparr>sc_hashtags := None\<rparr>)] [instagram_account] (\<lambda>r. None))))
       = [Request (UpdatePostStatus ''p1'' ''publishing''),
          Request (SelectActiveAccounts ''u1''),
          PublishCall ''instagram'' ''Hello'' None (Some [''m1'']) instagram_account,
          Request (UpdatePostContent ''c1'' (SetErrorMessage null_join_error)),
          Request (UpdatePostStatus ''p1'' ''failed'')]"
  by (simp add: example_defs run_defs publishToSocialMedia_def null_join_error_def)

text \<open>
  C4, as the code has it. Whatever they are given, the four platform publishers throw,
  each its own message that the platform's API needs a complete OAuth configuration, and
  so does \<^verbatim>\<open>publishToSocialMedia\<close> on the four platforms when the hashtags are not null.
  Hence a post whose only content row is for one of them and has hashtags that are not
  null, with an active account of its owner on that platform, and whose update to
  \<^verbatim>\<open>publishing\<close> and accounts query are answered: it is summarised by the counts 0
  and 1, the last request of its processing writes \<^verbatim>\<open>failed\<close>, and the row's
  \<^verbatim>\<open>error_message\<close> is sent as that platform's message; the table holds both when the
  store accepts the two writes.
\<close>

theorem oauth_required_rule:
  "snd (publishToInstagram content mediaIds acc)
     = Inl (''Instagram API n'' @ [CHR 0xC3, CHR 0xA9] @ ''cessite une configuration OAuth compl''
            @ [CHR 0xC3, CHR 0xA8] @ ''te avec un compte Business'')
   \<and> snd (publishToFacebook content mediaIds acc)
     = Inl (''Facebook API n'' @ [CHR 0xC3, CHR 0xA9] @ ''cessite une configuration OAuth compl''
            @ [CHR 0xC3, CHR 0xA8] @ ''te'')
   \<and> snd (publishToTikTok content mediaIds acc)
     = Inl (''TikTok API n'' @ [CHR 0xC3, CHR 0xA9] @ ''cessite une configuration OAuth compl''
            @ [CHR 0xC3, CHR 0xA8] @ ''te'')
   \<and> snd (publishToPinterest content mediaIds acc)
     = Inl (''Pinterest API n'' @ [CHR 0xC3, CHR 0xA9] @ ''cessite une configuration OAuth compl''
            @ [CHR 0xC3, CHR 0xA8] @ ''te'')
   \<and> snd (publishToSocialMedia ''instagram'' caption (Some tags) mediaIds acc) = Inl oauth_instagram
   \<and> snd (publishToSocialMedia ''facebook'' caption (Some tags) mediaIds acc) = Inl oauth_facebook
   \<and> snd (publishToSocialMedia ''tiktok'' caption (Some tags) mediaIds acc) = Inl oauth_tiktok
   \<and> snd (publishToSocialMedia ''pinterest'' caption (Some tags) mediaIds acc) = Inl oauth_pinterest
   \<and> (sel_post_content post = [row]
        \<and> sc_platform row \<in> {''instagram'', ''facebook'', ''tiktok'', ''pinterest''}
        \<and> find (\<lambda>a. account_platform a = sc_platform row)
              (filter (\<lambda>a. account_user_id a = sel_user_id post \<and> is_active a)
                 (social_accounts w)) = Some a
        \<and> faults w (UpdatePostStatus (sel_id post) ''publishing'') = None
        \<and> faults w (SelectActiveAccounts (sel_user_id post)) = None
        \<and> sc_hashtags row = Some hs
      \<longrightarrow> (let w' = snd (process_post publishToSocialMedia post w);
                m = (if sc_platform row = ''instagram'' then oauth_instagram
                     else if sc_platform row = ''facebook'' then oauth_facebook
                     else if sc_platform row = ''tiktok'' then oauth_tiktok
                     else oauth_pinterest)
            in fst (process_post publishToSocialMedia post w)
                 = Counts (sel_id post) (sel_title post) 0 1
               \<and> last (trace w') = Request (UpdatePostStatus (sel_id post) ''failed'')
               \<and> (faults w (UpdatePostStatus (sel_id post) ''failed'') = None \<longrightarrow>
                    (\<forall>p \<in> set (posts w'). post_id p = sel_id post \<longrightarrow> post_status p = ''failed''))
               \<and> (faults w (UpdatePostContent (sc_id row) (SetErrorMessage m)) = None \<longrightarrow>
                    (\<forall>c \<in> set (post_content w').
                       content_id c = sc_id row \<longrightarrow> error_message c = Some m))))"
proof -
  have variants:
    "snd (publishToInstagram content mediaIds acc)
       = Inl (''Instagram API n'' @ [CHR 0xC3, CHR 0xA9] @ ''cessite une configuration OAuth compl''
              @ [CHR 0xC3, CHR 0xA8] @ ''te avec un compte Business'')"
    "snd (publishToFacebook content mediaIds acc)
       = Inl (''Facebook API n'' @ [CHR 0xC3, CHR 0xA9] @ ''cessite une configuration OAuth compl''
              @ [CHR 0xC3, CHR 0xA8] @ ''te'')"
    "snd (publishToTikTok content mediaIds acc)
       = Inl (''TikTok API n'' @ [CHR 0xC3, CHR 0xA9] @ ''cessite une configuration OAuth compl''
              @ [CHR 0xC3, CHR 0xA8] @ ''te'')"
    "snd (publishToPinterest content mediaIds acc)
       = Inl (''Pinterest API n'' @ [CHR 0xC3, CHR 0xA9] @ ''cessite une configuration OAuth compl''
              @ [CHR 0xC3, CHR 0xA8] @ ''te'')"
    by (simp_all add: publishToInstagram_def publishToFacebook_def publishToTikTok_def
        publishToPinterest_def oauth_instagram_def oauth_facebook_def oauth_tiktok_def
        oauth_pinterest_def e_acute_def e_grave_def)
  have switch:
    "snd (publishToSocialMedia ''instagram'' caption (Some tags) mediaIds acc) = Inl oauth_instagram"
    "snd (publishToSocialMedia ''facebook'' caption (Some tags) mediaIds acc) = Inl oauth_facebook"
    "snd (publishToSocialMedia ''tiktok'' caption (Some tags) mediaIds acc) = Inl oauth_tiktok"
    "snd (publishToSocialMedia ''pinterest'' caption (Some tags) mediaIds acc) = Inl oauth_pinterest"
    by (simp_all add: publishToSocialMedia_def publishToInstagram_def publishToFacebook_def
        publishToTikTok_def publishToPinterest_def)
  have post: "let w' = snd (process_post publishToSocialMedia post w);
                m = (if sc_platform row = ''instagram'' then oauth_instagram
                     else if sc_platform row = ''facebook'' then oauth_facebook
                     else if sc_platform row = ''tiktok'' then oauth_tiktok
                     else oauth_pinterest)
            in fst (process_post publishToSocialMedia post w)
                 = Counts (sel_id post) (sel_title post) 0 1
               \<and> last (trace w') = Request (UpdatePostStatus (sel_id post) ''failed'')
               \<and> (faults w (UpdatePostStatus (sel_id post) ''failed'') = None \<longrightarrow>
                    (\<forall>p \<in> set (posts w'). post_id p = sel_id post \<longrightarrow> post_status p = ''failed''))
               \<and> (faults w (UpdatePostContent (sc_id row) (SetErrorMessage m)) = None \<longrightarrow>
                    (\<forall>c \<in> set (post_content w').
                       content_id c = sc_id row \<longrightarrow> error_message c = Some m))"
    if h: "sel_post_content post = [row]"
      "sc_platform row \<in> {''instagram'', ''facebook'', ''tiktok'', ''pinterest''}"
      "find (\<lambda>a. account_platform a = sc_platform row)
         (filter (\<lambda>a. account_user_id a = sel_user_id post \<and> is_active a)
            (social_accounts w)) = Some a"
      "faults w (UpdatePostStatus (sel_id post) ''publishing'') = None"
      "faults w (SelectActiveAccounts (sel_user_id post)) = None"
      "sc_hashtags row = Some hs"
    unfolding Let_def
    using single_row_post[OF h refl refl] by blast
  show ?thesis
    using variants switch post by blast
qed

theorem oauth_required_rule_witness:
  "sel_post_content (example_post [instagram_content]) = [instagram_content]
   \<and> sc_platform instagram_content \<in> {''instagram'', ''facebook'', ''tiktok'', ''pinterest''}
   \<and> find (\<lambda>a. account_platform a = sc_platform instagram_content)
         (filter (\<lambda>a. account_user_id a = sel_user_id (example_post [instagram_content]) \<and> is_active a) (social_accounts (example_world [instagram_content] [instagram_account] (\<lambda>r. None))))
       = Some instagram_account
   \<and> faults (example_world [instagram_content] [instagram_account] (\<lambda>r. None)) (UpdatePostStatus (sel_id (example_post [instagram_content])) ''publishing'') = None
   \<and> faults (example_world [instagram_content] [instagram_account] (\<lambda>r. None)) (SelectActiveAccounts (sel_user_id (example_post [instagram_content]))) = None
   \<and> sc_hashtags instagram_content = Some [Some ''#a'', Some ''#b'']
   \<and> fst (process_post publishToSocialMedia (example_post [instagram_content]) (example_world [instagram_content] [instagram_account] (\<lambda>r. None))) = Counts ''p1'' ''Launch'' 0 1
   \<and> map (\<lambda>p. (post_id p, post_status p)) (posts (snd (process_post publishToSocialMedia (example_post [instagram_content]) (example_world [instagram_content] [instagram_account] (\<lambda>r. None)))))
       = [(''p1'', ''failed'')]
   \<and> map (\<lambda>c. (content_id c, error_message c))
         (post_content (snd (process_post publishToSocialMedia (example_post [instagram_content]) (example_world [instagram_content] [instagram_account] (\<lambda>r. None)))))
       = [(''c1'', Some oauth_instagram)]"
  using oauth_required_rule[where post = "(example_post [instagram_content])" and row = instagram_content and w = "(example_world [instagram_content] [instagram_account] (\<lambda>r. None))"
      and a = instagram_account and hs = "[Some ''#a'', Some ''#b'']"]
  by (simp add: example_defs run_defs publishToSocialMedia_def publishToInstagram_def
      fullContent_def)

subsection \<open>The dispatcher\<close>

lemma length_due_rows: "length (due_rows now w) = min 10 (length (filter (due now) (posts w)))"
  by (simp add: due_rows_def min.commute)

lemma due_rows_due:
  assumes "p \<in> set (due_rows now w)"
  shows "p \<in> set (posts w) \<and> due now p"
proof -
  have "p \<in> set (filter (due now) (posts w))"
    using assms set_take_subset[of 10 "filter (due now) (posts w)"]
    by (auto simp: due_rows_def)
  then show ?thesis by simp
qed

lemma due_Some: "due now p \<longleftrightarrow> post_status p = ''scheduled'' \<and> (\<exists>t. post_scheduled_for p = Some t \<and> t \<le> now)"
  by (simp add: due_def split: option.splits)

lemma dispatch_unfold:
  "dispatch publish w =
     (case faults w (SelectDuePosts (clock w)) of
        Some e \<Rightarrow>
          (\<lparr>http_status = 500,
            response_body = ErrorBody (if e = [] then ''Erreur serveur'' else e)\<rparr>,
           sent (SelectDuePosts (clock w)) w)
      | None \<Rightarrow>
          (if due_rows (clock w) w = []
           then (\<lparr>http_status = 200,
                  response_body = NothingToPublish (''Aucun post '' @ a_grave @ '' publier'') 0\<rparr>,
                 sent (SelectDuePosts (clock w)) w)
           else (\<lparr>http_status = 200,
                  response_body =
                    Finished (''Publication termin'' @ e_acute @ ''e'')
                      (length (due_rows (clock w) w))
                      (fst (process_posts publish
                              (map (project_post (post_content w)) (due_rows (clock w) w))
                              (sent (SelectDuePosts (clock w)) w)))\<rparr>,
                 snd (process_posts publish
                        (map (project_post (post_content w)) (due_rows (clock w) w))
                        (sent (SelectDuePosts (clock w)) w)))))"
proof (cases "faults w (SelectDuePosts (clock w))")
  case (Some e)
  then show ?thesis by (simp add: dispatch_def select_due_posts_def)
next
  case None
  show ?thesis
  proof (cases "due_rows (clock w) w")
    case Nil
    then show ?thesis using None by (simp add: dispatch_def select_due_posts_def)
  next
    case (Cons r rs)
    then show ?thesis
      using None
      by (simp add: dispatch_def select_due_posts_def split: prod.splits del: process_posts.simps)
  qed
qed

lemma project_post_id: "map sel_id (map (project_post cs) rs) = map post_id rs"
  by (simp add: project_post_def)

text \<open>
  C3. At most ten rows are selected, as many as are due when fewer; each is a row of
  \<^verbatim>\<open>posts\<close> with status \<^verbatim>\<open>scheduled\<close> and a \<^verbatim>\<open>scheduled_for\<close> not after \<open>now\<close>, and a
  row with another status, with no \<^verbatim>\<open>scheduled_for\<close> or with one after \<open>now\<close> is never
  among them. The query answers with these rows unless the store refuses it. Whenever a
  response of the handler has a \<^verbatim>\<open>processed\<close> field, its status is 200 and the field is
  the number of rows selected at the clock of the call; every request other than a
  preflight whose selection is answered gets such a response; and the results name the
  selected posts, one entry each, in order.
\<close>

theorem selection_rule:
  "length (due_rows now w) \<le> 10
   \<and> length (due_rows now w) = min 10 (length (filter (due now) (posts w)))
   \<and> (\<forall>p \<in> set (due_rows now w).
         p \<in> set (posts w) \<and> post_status p = ''scheduled''
         \<and> (\<exists>t. post_scheduled_for p = Some t \<and> t \<le> now))
   \<and> (\<forall>p. post_status p \<noteq> ''scheduled'' \<or> post_scheduled_for p = None
             \<or> (\<exists>t. post_scheduled_for p = Some t \<and> now < t)
           \<longrightarrow> p \<notin> set (due_rows now w))
   \<and> fst (select_due_posts now w)
       = (case faults w (SelectDuePosts now) of
            Some e \<Rightarrow> (None, Some e)
          | None \<Rightarrow> (Some (map (project_post (post_content w)) (due_rows now w)), None))
   \<and> (\<forall>n. processed (response_body (fst (handler_with publish meth w))) = Some n \<longrightarrow>
          http_status (fst (handler_with publish meth w)) = 200
          \<and> n = length (due_rows (clock w) w))
   \<and> (meth \<noteq> ''OPTIONS'' \<and> faults w (SelectDuePosts (clock w)) = None \<longrightarrow>
          http_status (fst (handler_with publish meth w)) = 200
          \<and> processed (response_body (fst (handler_with publish meth w)))
              = Some (length (due_rows (clock w) w)))
   \<and> (\<forall>m n rs. response_body (fst (handler_with publish meth w)) = Finished m n rs \<longrightarrow>
          map summary_post_id rs = map post_id (due_rows (clock w) w))"
proof -
  have a: "length (due_rows now w) \<le> 10"
    by (simp add: length_due_rows)
  have b: "\<forall>p \<in> set (due_rows now w).
         p \<in> set (posts w) \<and> post_status p = ''scheduled''
         \<and> (\<exists>t. post_scheduled_for p = Some t \<and> t \<le> now)"
    using due_rows_due[of _ now w] by (auto simp: due_Some)
  have c: "\<forall>p. post_status p \<noteq> ''scheduled'' \<or> post_scheduled_for p = None
             \<or> (\<exists>t. post_scheduled_for p = Some t \<and> now < t)
           \<longrightarrow> p \<notin> set (due_rows now w)"
  proof (intro allI impI notI)
    fix p
    assume out: "post_status p \<noteq> ''scheduled'' \<or> post_scheduled_for p = None
             \<or> (\<exists>t. post_scheduled_for p = Some t \<and> now < t)"
      and "p \<in> set (due_rows now w)"
    then have "post_status p = ''scheduled''"
      and "\<exists>t. post_scheduled_for p = Some t \<and> t \<le> now"
      using b by blast+
    with out show False by auto
  qed
  have d: "fst (select_due_posts now w)
       = (case faults w (SelectDuePosts now) of
            Some e \<Rightarrow> (None, Some e)
          | None \<Rightarrow> (Some (map (project_post (post_content w)) (due_rows now w)), None))"
    by (simp add: select_due_posts_def split: option.splits)
  have e: "http_status (fst (handler_with publish meth w)) = 200
          \<and> n = length (due_rows (clock w) w)"
    if "processed (response_body (fst (handler_with publish meth w))) = Some n" for n
    using that
    by (auto simp: handler_with_def dispatch_unfold split: if_splits option.splits)
  have f: "http_status (fst (handler_with publish meth w)) = 200
          \<and> processed (response_body (fst (handler_with publish meth w)))
              = Some (length (due_rows (clock w) w))"
    if "meth \<noteq> ''OPTIONS''" and "faults w (SelectDuePosts (clock w)) = None"
    using that by (simp add: handler_with_def dispatch_unfold)
  have g: "map summary_post_id rs = map post_id (due_rows (clock w) w)"
    if "response_body (fst (handler_with publish meth w)) = Finished m n rs" for m n rs
    using that
    by (auto simp: handler_with_def dispatch_unfold process_posts_ids project_post_def
        split: if_splits option.splits)
  show ?thesis
    using a b c d e f g length_due_rows[of now w] by blast
qed

theorem selection_rule_witness:
  "map post_id (due_rows 10 (two_post_world [instagram_content] [instagram_account] (\<lambda>r. None))) = [''p1'', ''p2'']
   \<and> map post_id (due_rows 6 (two_post_world [instagram_content] [instagram_account] (\<lambda>r. None))) = [''p1'']
   \<and> ''POST'' \<noteq> ''OPTIONS''
   \<and> faults (two_post_world [instagram_content] [instagram_account] (\<lambda>r. None)) (SelectDuePosts (clock (two_post_world [instagram_content] [instagram_account] (\<lambda>r. None)))) = None
   \<and> http_status (fst (handler_with publishToSocialMedia ''POST'' (two_post_world [instagram_content] [instagram_account] (\<lambda>r. None)))) = 200
   \<and> processed (response_body (fst (handler_with publishToSocialMedia ''POST'' (two_post_world [instagram_content] [instagram_account] (\<lambda>r. None))))) = Some 2
   \<and> length (filter (due 10) (posts ((two_post_world [instagram_content] [instagram_account] (\<lambda>r. None))
          \<lparr>posts := replicate 12 second_row\<rparr>))) = 12
   \<and> processed (response_body (fst (handler_with publishToSocialMedia ''POST'' ((two_post_world [instagram_content] [instagram_account] (\<lambda>r. None))
          \<lparr>posts := replicate 12 second_row\<rparr>)))) = Some 10"
proof -
  have m: "''POST'' \<noteq> ''OPTIONS''"
    by simp
  have f2: "faults (two_post_world [instagram_content] [instagram_account] (\<lambda>r. None)) (SelectDuePosts (clock (two_post_world [instagram_content] [instagram_account] (\<lambda>r. None)))) = None"
    by (simp add: example_defs)
  have f12: "faults ((two_post_world [instagram_content] [instagram_account] (\<lambda>r. None))
          \<lparr>posts := replicate 12 second_row\<rparr>) (SelectDuePosts (clock ((two_post_world [instagram_content] [instagram_account] (\<lambda>r. None))
          \<lparr>posts := replicate 12 second_row\<rparr>))) = None"
    by (simp add: example_defs)
  have n2: "length (due_rows (clock (two_post_world [instagram_content] [instagram_account] (\<lambda>r. None))) (two_post_world [instagram_content] [instagram_account] (\<lambda>r. None))) = 2"
    by (simp add: example_defs due_rows_def due_def)
  have n12: "length (due_rows (clock ((two_post_world [instagram_content] [instagram_account] (\<lambda>r. None))
          \<lparr>posts := replicate 12 second_row\<rparr>)) ((two_post_world [instagram_content] [instagram_account] (\<lambda>r. None))
          \<lparr>posts := replicate 12 second_row\<rparr>)) = 10"
    by (simp add: example_defs due_rows_def due_def)
  have r2: "http_status (fst (handler_with publishToSocialMedia ''POST'' (two_post_world [instagram_content] [instagram_account] (\<lambda>r. None)))) = 200
      \<and> processed (response_body (fst (handler_with publishToSocialMedia ''POST'' (two_post_world [instagram_content] [instagram_account] (\<lambda>r. None)))))
          = Some (length (due_rows (clock (two_post_world [instagram_content] [instagram_account] (\<lambda>r. None))) (two_post_world [instagram_content] [instagram_account] (\<lambda>r. None))))"
    using selection_rule[where now = 10 and w = "(two_post_world [instagram_content] [instagram_account] (\<lambda>r. None))" and publish = publishToSocialMedia
        and meth = "''POST''"] m f2
    by blast
  have r12: "processed (response_body (fst (handler_with publishToSocialMedia ''POST'' ((two_post_world [instagram_content] [instagram_account] (\<lambda>r. None))
          \<lparr>posts := replicate 12 second_row\<rparr>))))
          = Some (length (due_rows (clock ((two_post_world [instagram_content] [instagram_account] (\<lambda>r. None))
          \<lparr>posts := replicate 12 second_row\<rparr>)) ((two_post_world [instagram_content] [instagram_account] (\<lambda>r. None))
          \<lparr>posts := replicate 12 second_row\<rparr>)))"
    using selection_rule[where now = 10 and w = "((two_post_world [instagram_content] [instagram_account] (\<lambda>r. None))
          \<lparr>posts := replicate 12 second_row\<rparr>)" and publish = publishToSocialMedia
        and meth = "''POST''"] m f12
    by blast
  have d10: "map post_id (due_rows 10 (two_post_world [instagram_content] [instagram_account] (\<lambda>r. None))) = [''p1'', ''p2'']"
    by (simp add: example_defs due_rows_def due_def)
  have d6: "map post_id (due_rows 6 (two_post_world [instagram_content] [instagram_account] (\<lambda>r. None))) = [''p1'']"
    by (simp add: example_defs due_rows_def due_def)
  have l12: "length (filter (due 10) (posts ((two_post_world [instagram_content] [instagram_account] (\<lambda>r. None))
          \<lparr>posts := replicate 12 second_row\<rparr>))) = 12"
    by (simp add: example_defs due_def)
  show ?thesis
    using m f2 r2 r12 d10 d6 l12 unfolding n2 n12 by blast
qed

text \<open>
  C8. When no row of \<^verbatim>\<open>posts\<close> is due at the clock of the call, the handler writes
  nothing, whatever the request and whatever the store answers: the three tables are
  unchanged and the trace gains at most the selection query. For a request that is not
  a preflight and whose selection is answered, the response is 200 with the message
  that no post is to be published and \<^verbatim>\<open>processed\<close> 0.
\<close>

theorem nothing_due_rule:
  assumes "filter (due (clock w)) (posts w) = []"
  shows "let w' = snd (handler_with publish meth w)
         in posts w' = posts w \<and> post_content w' = post_content w
            \<and> social_accounts w' = social_accounts w
            \<and> filter is_write (trace w') = filter is_write (trace w)
            \<and> (trace w' = trace w \<or> trace w' = trace w @ [Request (SelectDuePosts (clock w))])
            \<and> (meth \<noteq> ''OPTIONS'' \<and> faults w (SelectDuePosts (clock w)) = None \<longrightarrow>
                 fst (handler_with publish meth w)
                   = \<lparr>http_status = 200,
                      response_body =
                        NothingToPublish (''Aucun post '' @ [CHR 0xC3, CHR 0xA0] @ '' publier'') 0\<rparr>
                 \<and> trace w' = trace w @ [Request (SelectDuePosts (clock w))])"
proof -
  have none: "due_rows (clock w) w = []"
    using assms by (simp add: due_rows_def)
  show ?thesis
    by (simp add: handler_with_def dispatch_unfold none a_grave_def Let_def split: option.splits)
qed

theorem nothing_due_rule_witness:
  "filter (due (clock ((example_world [instagram_content] [instagram_account] (\<lambda>r. None))\<lparr>clock := 3\<rparr>))) (posts ((example_world [instagram_content] [instagram_account] (\<lambda>r. None))\<lparr>clock := 3\<rparr>)) = []
   \<and> ''POST'' \<noteq> ''OPTIONS''
   \<and> faults ((example_world [instagram_content] [instagram_account] (\<lambda>r. None))\<lparr>clock := 3\<rparr>) (SelectDuePosts (clock ((example_world [instagram_content] [instagram_account] (\<lambda>r. None))\<lparr>clock := 3\<rparr>))) = None
   \<and> fst (handler_with publishToSocialMedia ''POST'' ((example_world [instagram_content] [instagram_account] (\<lambda>r. None))\<lparr>clock := 3\<rparr>))
       = \<lparr>http_status = 200,
          response_body =
            NothingToPublish (''Aucun post '' @ [CHR 0xC3, CHR 0xA0] @ '' publier'') 0\<rparr>
   \<and> map (\<lambda>p. (post_id p, post_status p))
         (posts (snd (handler_with publishToSocialMedia ''POST'' ((example_world [instagram_content] [instagram_account] (\<lambda>r. None))\<lparr>clock := 3\<rparr>))))
       = [(''p1'', ''scheduled'')]
   \<and> map (\<lambda>c. (content_id c, published_url c, published_at c, error_message c))
         (post_content (snd (handler_with publishToSocialMedia ''POST'' ((example_world [instagram_content] [instagram_account] (\<lambda>r. None))\<lparr>clock := 3\<rparr>))))
       = [(''c1'', None, None, None)]
   \<and> trace (snd (handler_with publishToSocialMedia ''POST'' ((example_world [instagram_content] [instagram_account] (\<lambda>r. None))\<lparr>clock := 3\<rparr>))) = [Request (SelectDuePosts 3)]"
proof -
  have h: "filter (due (clock ((example_world [instagram_content] [instagram_account] (\<lambda>r. None))\<lparr>clock := 3\<rparr>))) (posts ((example_world [instagram_content] [instagram_account] (\<lambda>r. None))\<lparr>clock := 3\<rparr>)) = []"
    by (simp add: example_defs due_def)
  have m: "''POST'' \<noteq> ''OPTIONS''"
    by simp
  have f: "faults ((example_world [instagram_content] [instagram_account] (\<lambda>r. None))\<lparr>clock := 3\<rparr>) (SelectDuePosts (clock ((example_world [instagram_content] [instagram_account] (\<lambda>r. None))\<lparr>clock := 3\<rparr>))) = None"
    by (simp add: example_defs)
  note r = nothing_due_rule[where publish = publishToSocialMedia and meth = "''POST''", OF h,
      unfolded Let_def]
  have resp: "fst (handler_with publishToSocialMedia ''POST'' ((example_world [instagram_content] [instagram_account] (\<lambda>r. None))\<lparr>clock := 3\<rparr>))
       = \<lparr>http_status = 200,
          response_body =
            NothingToPublish (''Aucun post '' @ [CHR 0xC3, CHR 0xA0] @ '' publier'') 0\<rparr>"
    using r m f by blast
  have ps: "posts (snd (handler_with publishToSocialMedia ''POST'' ((example_world [instagram_content] [instagram_account] (\<lambda>r. None))\<lparr>clock := 3\<rparr>))) = posts ((example_world [instagram_content] [instagram_account] (\<lambda>r. None))\<lparr>clock := 3\<rparr>)"
    using r by blast
  have cs: "post_content (snd (handler_with publishToSocialMedia ''POST'' ((example_world [instagram_content] [instagram_account] (\<lambda>r. None))\<lparr>clock := 3\<rparr>))) = post_content ((example_world [instagram_content] [instagram_account] (\<lambda>r. None))\<lparr>clock := 3\<rparr>)"
    using r by blast
  have tr: "trace (snd (handler_with publishToSocialMedia ''POST'' ((example_world [instagram_content] [instagram_account] (\<lambda>r. None))\<lparr>clock := 3\<rparr>)))
      = trace ((example_world [instagram_content] [instagram_account] (\<lambda>r. None))\<lparr>clock := 3\<rparr>) @ [Request (SelectDuePosts (clock ((example_world [instagram_content] [instagram_account] (\<lambda>r. None))\<lparr>clock := 3\<rparr>)))]"
    using r m f by blast
  have ps0: "map (\<lambda>p. (post_id p, post_status p)) (posts ((example_world [instagram_content] [instagram_account] (\<lambda>r. None))\<lparr>clock := 3\<rparr>)) = [(''p1'', ''scheduled'')]"
    by (simp add: example_defs)
  have cs0: "map (\<lambda>c. (content_id c, published_url c, published_at c, error_message c))
      (post_content ((example_world [instagram_content] [instagram_account] (\<lambda>r. None))\<lparr>clock := 3\<rparr>)) = [(''c1'', None, None, None)]"
    by (simp add: example_defs)
  have tr0: "trace ((example_world [instagram_content] [instagram_account] (\<lambda>r. None))\<lparr>clock := 3\<rparr>) @ [Request (SelectDuePosts (clock ((example_world [instagram_content] [instagram_account] (\<lambda>r. None))\<lparr>clock := 3\<rparr>)))] = [Request (SelectDuePosts 3)]"
    by (simp add: example_defs)
  show ?thesis
    unfolding resp ps cs tr ps0 cs0 tr0 using h m f by simp
qed

end
